theory Spec2Isabelle
  imports Complex_Main
begin

section \<open>Numbers of the source language\<close>

text \<open>
  Every numeric field of the program is a JavaScript number, a double. The embedding
  keeps the finite values as reals and keeps the three special values, so that a
  division by zero yields what the program yields (an infinity or NaN) and not a finite
  number. A zero divisor is read as positive zero; the sign of zero is not modelled. The
  operations of this section are exact; the rounding of every operation to a double,
  with overflow and subnormal numbers, is added in the section on rounding, and the
  computations are given with both.
\<close>

datatype number = Num real | PosInf | NegInf | NaN

fun js_neg :: "number \<Rightarrow> number" where
  "js_neg (Num a) = Num (- a)"
| "js_neg PosInf = NegInf"
| "js_neg NegInf = PosInf"
| "js_neg NaN = NaN"

fun js_add :: "number \<Rightarrow> number \<Rightarrow> number" where
  "js_add (Num a) (Num b) = Num (a + b)"
| "js_add NaN _ = NaN"
| "js_add _ NaN = NaN"
| "js_add PosInf NegInf = NaN"
| "js_add NegInf PosInf = NaN"
| "js_add PosInf _ = PosInf"
| "js_add _ PosInf = PosInf"
| "js_add NegInf _ = NegInf"
| "js_add _ NegInf = NegInf"

definition js_sub :: "number \<Rightarrow> number \<Rightarrow> number" where
  "js_sub a b = js_add a (js_neg b)"

fun js_mul :: "number \<Rightarrow> number \<Rightarrow> number" where
  "js_mul (Num a) (Num b) = Num (a * b)"
| "js_mul NaN _ = NaN"
| "js_mul _ NaN = NaN"
| "js_mul (Num a) i = (if a = 0 then NaN else if 0 < a then i else js_neg i)"
| "js_mul i (Num b) = (if b = 0 then NaN else if 0 < b then i else js_neg i)"
| "js_mul PosInf i = i"
| "js_mul NegInf i = js_neg i"

fun js_div :: "number \<Rightarrow> number \<Rightarrow> number" where
  "js_div (Num a) (Num b) =
     (if b = 0 then (if a = 0 then NaN else if 0 < a then PosInf else NegInf)
      else Num (a / b))"
| "js_div NaN _ = NaN"
| "js_div _ NaN = NaN"
| "js_div (Num a) _ = Num 0"
| "js_div i (Num b) = (if 0 \<le> b then i else js_neg i)"
| "js_div _ _ = NaN"

text \<open>\<open>Math.min\<close> of two arguments.\<close>

fun js_min :: "number \<Rightarrow> number \<Rightarrow> number" where
  "js_min (Num a) (Num b) = Num (min a b)"
| "js_min NaN _ = NaN"
| "js_min _ NaN = NaN"
| "js_min NegInf _ = NegInf"
| "js_min _ NegInf = NegInf"
| "js_min PosInf b = b"
| "js_min a PosInf = a"

text \<open>The comparison \<open>a > b\<close>: false as soon as one side is NaN.\<close>

fun js_gt :: "number \<Rightarrow> number \<Rightarrow> bool" where
  "js_gt (Num a) (Num b) = (b < a)"
| "js_gt NaN _ = False"
| "js_gt _ NaN = False"
| "js_gt PosInf b = (b \<noteq> PosInf)"
| "js_gt _ PosInf = False"
| "js_gt a NegInf = (a \<noteq> NegInf)"
| "js_gt NegInf _ = False"

text \<open>Truthiness of a number, as \<open>||\<close> tests it: zero and NaN are falsy.\<close>

fun truthy :: "number \<Rightarrow> bool" where
  "truthy (Num a) = (a \<noteq> 0)"
| "truthy NaN = False"
| "truthy _ = True"

text \<open>\<open>xs.reduce((sum, x) => sum + f(x), 0)\<close>.\<close>

definition reduce_sum :: "('a \<Rightarrow> number) \<Rightarrow> 'a list \<Rightarrow> number" where
  "reduce_sum f xs = foldl (\<lambda>sum x. js_add sum (f x)) (Num 0) xs"

section \<open>Data model (pages/Index.tsx)\<close>

record Company =
  name :: string
  foundersShares :: number
  totalShares :: number
  initialValuation :: number

text \<open>\<open>valuationCap\<close> is an optional field: \<open>None\<close> is \<open>undefined\<close>.\<close>

record SafeInvestment =
  safe_id :: string
  investorName :: string
  amount :: number
  discount :: number
  valuationCap :: "number option"
  converted :: bool

record Investor =
  inv_name :: string
  inv_investment :: number

record PricingRoundData =
  round_id :: string
  round_name :: string
  preMoneyValuation :: number
  investment :: number
  newInvestors :: "Investor list"

datatype stakeholder_type = founder | safe | investor

section \<open>SAFE conversion and round pricing\<close>

text \<open>
  The three components (PricingRound, OwnershipTable, ExitScenario) repeat the same
  expressions for one SAFE note: \<open>discountPrice\<close>, \<open>capPrice\<close>, \<open>conversionPrice\<close>,
  \<open>sharePrice\<close> and \<open>convertedShares\<close>. They are written once here, with the
  pre-money valuation and the running share total as arguments.
\<close>

definition discountPrice :: "number \<Rightarrow> SafeInvestment \<Rightarrow> number" where
  "discountPrice preMoney s =
     js_mul preMoney (js_sub (Num 1) (js_div (discount s) (Num 100)))"

definition capPrice :: "SafeInvestment \<Rightarrow> number" where
  "capPrice s =
     (case valuationCap s of
        None \<Rightarrow> PosInf
      | Some c \<Rightarrow> if truthy c then c else PosInf)"

definition conversionPrice :: "number \<Rightarrow> SafeInvestment \<Rightarrow> number" where
  "conversionPrice preMoney s = js_min (discountPrice preMoney s) (capPrice s)"

definition sharePrice :: "number \<Rightarrow> number \<Rightarrow> SafeInvestment \<Rightarrow> number" where
  "sharePrice preMoney tot s = js_div (conversionPrice preMoney s) tot"

definition convertedShares :: "number \<Rightarrow> number \<Rightarrow> SafeInvestment \<Rightarrow> number" where
  "convertedShares preMoney tot s = js_div (amount s) (sharePrice preMoney tot s)"

definition roundSafeInvestment :: "SafeInvestment list \<Rightarrow> number" where
  "roundSafeInvestment safeRounds = reduce_sum amount safeRounds"

definition effectivePreMoney :: "SafeInvestment list \<Rightarrow> PricingRoundData \<Rightarrow> number" where
  "effectivePreMoney safeRounds r =
     js_sub (preMoneyValuation r) (roundSafeInvestment safeRounds)"

definition pricePerShare :: "SafeInvestment list \<Rightarrow> number \<Rightarrow> PricingRoundData \<Rightarrow> number" where
  "pricePerShare safeRounds tot r = js_div (effectivePreMoney safeRounds r) tot"

definition newShares :: "SafeInvestment list \<Rightarrow> number \<Rightarrow> PricingRoundData \<Rightarrow> number" where
  "newShares safeRounds tot r = js_div (investment r) (pricePerShare safeRounds tot r)"

section \<open>Ownership view (components/OwnershipTable.tsx, ownershipData)\<close>

record OwnershipBreakdown =
  stakeholder :: string
  shares :: number
  ownership :: number
  ob_investment :: number
  ob_type :: stakeholder_type

record OwnershipState =
  ot_totalShares :: number
  ot_currentValuation :: number
  ot_stakeholders :: "OwnershipBreakdown list"

text \<open>The entry pushed for a converted SAFE.\<close>

definition ot_safe_entry :: "number \<Rightarrow> number \<Rightarrow> SafeInvestment \<Rightarrow> OwnershipBreakdown" where
  "ot_safe_entry preMoney tot s =
     \<lparr>stakeholder = investorName s,
      shares = convertedShares preMoney tot s,
      ownership = Num 0,
      ob_investment = amount s,
      ob_type = safe\<rparr>"

text \<open>
  One pass of the inner \<open>safeRounds.forEach\<close>: the accumulator is \<open>safeShares\<close> and the
  stakeholder array. A note whose \<open>converted\<close> flag is unset is skipped; an entry is
  pushed only when no entry with the same name exists yet.
\<close>

definition ot_safe ::
  "number \<Rightarrow> number \<Rightarrow> number \<times> OwnershipBreakdown list \<Rightarrow> SafeInvestment
     \<Rightarrow> number \<times> OwnershipBreakdown list" where
  "ot_safe preMoney tot acc s =
     (if \<not> converted s then acc
      else
        (js_add (fst acc) (convertedShares preMoney tot s),
         (case find (\<lambda>e. stakeholder e = investorName s) (snd acc) of
            None \<Rightarrow> snd acc @ [ot_safe_entry preMoney tot s]
          | Some _ \<Rightarrow> snd acc)))"

definition ot_investor :: "number \<Rightarrow> Investor \<Rightarrow> OwnershipBreakdown" where
  "ot_investor pps i =
     \<lparr>stakeholder = inv_name i,
      shares = js_div (inv_investment i) pps,
      ownership = Num 0,
      ob_investment = inv_investment i,
      ob_type = investor\<rparr>"

text \<open>The body of \<open>pricingRounds.forEach\<close> (lines 50 to 99).\<close>

definition ot_round ::
  "SafeInvestment list \<Rightarrow> OwnershipState \<Rightarrow> PricingRoundData \<Rightarrow> OwnershipState" where
  "ot_round safeRounds st r =
     (let tot = ot_totalShares st;
          acc = foldl (ot_safe (preMoneyValuation r) tot)
                  (Num 0, ot_stakeholders st) safeRounds;
          safeShares = fst acc;
          pps = pricePerShare safeRounds tot r
      in \<lparr>ot_totalShares = js_add tot (js_add safeShares (newShares safeRounds tot r)),
          ot_currentValuation = js_add (preMoneyValuation r) (investment r),
          ot_stakeholders = snd acc @ map (ot_investor pps) (newInvestors r)\<rparr>)"

definition ot_init :: "Company \<Rightarrow> OwnershipState" where
  "ot_init company =
     \<lparr>ot_totalShares = totalShares company,
      ot_currentValuation = initialValuation company,
      ot_stakeholders =
        [\<lparr>stakeholder = ''Founders'',
          shares = foundersShares company,
          ownership = Num 0,
          ob_investment = Num 0,
          ob_type = founder\<rparr>]\<rparr>"

text \<open>
  \<open>ownershipData\<close> up to line 104: the rounds in order, then the ownership percentage
  of every entry against the final total. (The chart groups, the dilution series and the
  sort of the returned array for display come after and are not part of the model.)
\<close>

definition ownershipData ::
  "Company \<Rightarrow> SafeInvestment list \<Rightarrow> PricingRoundData list \<Rightarrow> OwnershipState" where
  "ownershipData company safeRounds pricingRounds =
     (let st = foldl (ot_round safeRounds) (ot_init company) pricingRounds
      in st\<lparr>ot_stakeholders :=
              map (\<lambda>e. e\<lparr>ownership := js_mul (js_div (shares e) (ot_totalShares st)) (Num 100)\<rparr>)
                (ot_stakeholders st)\<rparr>)"

section \<open>Exit view (components/ExitScenario.tsx)\<close>

record ExitStakeholder =
  es_name :: string
  es_shares :: number
  es_investment :: number
  es_type :: stakeholder_type

record OwnershipStructure =
  os_stakeholders :: "ExitStakeholder list"
  os_totalShares :: number

definition os_safe :: "number \<Rightarrow> number \<Rightarrow> SafeInvestment \<Rightarrow> ExitStakeholder" where
  "os_safe preMoney tot s =
     \<lparr>es_name = investorName s,
      es_shares = convertedShares preMoney tot s,
      es_investment = amount s,
      es_type = safe\<rparr>"

definition os_investor :: "number \<Rightarrow> Investor \<Rightarrow> ExitStakeholder" where
  "os_investor pps i =
     \<lparr>es_name = inv_name i,
      es_shares = js_div (inv_investment i) pps,
      es_investment = inv_investment i,
      es_type = investor\<rparr>"

text \<open>
  The body of \<open>pricingRounds.forEach\<close> (lines 60 to 104): every note of \<open>safeRounds\<close>
  is converted and pushed, whatever its \<open>converted\<close> flag and whatever is in the array.
\<close>

definition os_round ::
  "SafeInvestment list \<Rightarrow> OwnershipStructure \<Rightarrow> PricingRoundData \<Rightarrow> OwnershipStructure" where
  "os_round safeRounds st r =
     (let tot = os_totalShares st;
          pps = pricePerShare safeRounds tot r;
          safeShares = reduce_sum (convertedShares (preMoneyValuation r) tot) safeRounds
      in \<lparr>os_stakeholders =
            os_stakeholders st @ map (os_safe (preMoneyValuation r) tot) safeRounds
              @ map (os_investor pps) (newInvestors r),
          os_totalShares = js_add tot (js_add safeShares (newShares safeRounds tot r))\<rparr>)"

definition os_init :: "Company \<Rightarrow> OwnershipStructure" where
  "os_init company =
     \<lparr>os_stakeholders =
        [\<lparr>es_name = ''Founders'',
          es_shares = foundersShares company,
          es_investment = Num 0,
          es_type = founder\<rparr>],
      os_totalShares = totalShares company\<rparr>"

text \<open>\<open>ownershipStructure\<close>: \<open>None\<close> is the \<open>null\<close> returned when there is no round.\<close>

definition ownershipStructure ::
  "Company \<Rightarrow> SafeInvestment list \<Rightarrow> PricingRoundData list \<Rightarrow> OwnershipStructure option" where
  "ownershipStructure company safeRounds pricingRounds =
     (if pricingRounds = [] then None
      else Some (foldl (os_round safeRounds) (os_init company) pricingRounds))"

record InvestorPayout =
  ip_name :: string
  ip_investment :: number
  payout :: number
  roi :: number
  multiple :: number

record ExitCalculation =
  exitValuation :: number
  founderPayout :: number
  founderROI :: number
  investorPayouts :: "InvestorPayout list"
  totalPayouts :: number

definition investorPayout :: "number \<Rightarrow> ExitStakeholder \<Rightarrow> InvestorPayout" where
  "investorPayout pps s =
     (let p = js_mul (es_shares s) pps
      in \<lparr>ip_name = es_name s,
          ip_investment = es_investment s,
          payout = p,
          roi = (if js_gt (es_investment s) (Num 0)
                 then js_mul (js_div (js_sub p (es_investment s)) (es_investment s)) (Num 100)
                 else Num 0),
          multiple = (if js_gt (es_investment s) (Num 0)
                      then js_div p (es_investment s)
                      else Num 0)\<rparr>)"

text \<open>The function mapped over \<open>exitValuations\<close> (lines 112 to 143).\<close>

definition exitCalculation :: "OwnershipStructure \<Rightarrow> number \<Rightarrow> ExitCalculation" where
  "exitCalculation os exitVal =
     (let pps = js_div exitVal (os_totalShares os);
          fp = (case find (\<lambda>s. es_name s = ''Founders'') (os_stakeholders os) of
                  Some f \<Rightarrow> js_mul (es_shares f) pps
                | None \<Rightarrow> Num 0);
          ips = map (investorPayout pps)
                  (filter (\<lambda>s. es_type s \<noteq> founder) (os_stakeholders os))
      in \<lparr>exitValuation = exitVal,
          founderPayout = fp,
          founderROI = Num 0,
          investorPayouts = ips,
          totalPayouts = js_add fp (reduce_sum payout ips)\<rparr>)"

definition exitCalculations ::
  "number list \<Rightarrow> OwnershipStructure option \<Rightarrow> ExitCalculation list" where
  "exitCalculations exitValuations os =
     (case os of None \<Rightarrow> [] | Some s \<Rightarrow> map (exitCalculation s) exitValuations)"

section \<open>Round preview (PricingRound component, calculations)\<close>

text \<open>
  A numeric text field of a form is represented by the number that \<open>parseFloat\<close> (or
  \<open>parseInt\<close>) reads from its text; where the code tests the text for emptiness, the
  field is optional and \<open>None\<close> is the empty text.
\<close>

record RoundForm =
  form_preMoneyValuation :: "number option"
  form_investment :: "number option"

record Calculations =
  preMoneyPricePerShare :: number
  calc_newShares :: number
  calc_safeShares :: number
  totalSharesAfter :: number
  postMoneyPricePerShare :: number
  postMoneyValuation :: number
  founderOwnership :: number
  safeOwnership :: number
  newInvestorOwnership :: number

definition calculations ::
  "RoundForm \<Rightarrow> Company \<Rightarrow> SafeInvestment list \<Rightarrow> Calculations option" where
  "calculations formData company safeRounds =
     (case (form_preMoneyValuation formData, form_investment formData) of
        (Some preMoneyVal, Some totalInvestment) \<Rightarrow>
          (let postMoneyVal = js_add preMoneyVal totalInvestment;
               totalSafeInvestment = reduce_sum amount safeRounds;
               safeShares =
                 (if safeRounds \<noteq> []
                  then reduce_sum
                         (\<lambda>s. js_div (amount s)
                                (js_div (conversionPrice preMoneyVal s) (totalShares company)))
                         safeRounds
                  else Num 0);
               epm = (if safeRounds \<noteq> [] then js_sub preMoneyVal totalSafeInvestment
                      else preMoneyVal);
               ppps = js_div epm (totalShares company);
               ns = js_div totalInvestment ppps;
               after = js_add (js_add (totalShares company) safeShares) ns
           in Some
                \<lparr>preMoneyPricePerShare = ppps,
                 calc_newShares = ns,
                 calc_safeShares = safeShares,
                 totalSharesAfter = after,
                 postMoneyPricePerShare = js_div postMoneyVal after,
                 postMoneyValuation = postMoneyVal,
                 founderOwnership = js_mul (js_div (foundersShares company) after) (Num 100),
                 safeOwnership = js_mul (js_div safeShares after) (Num 100),
                 newInvestorOwnership = js_mul (js_div ns after) (Num 100)\<rparr>)
      | _ \<Rightarrow> None)"

section \<open>Application state and its handlers (pages/Index.tsx, components/CompanySetup.tsx)\<close>

record AppState =
  app_company :: "Company option"
  app_safeRounds :: "SafeInvestment list"
  app_pricingRounds :: "PricingRoundData list"
  app_activeTab :: string

definition app_start :: AppState where
  "app_start = \<lparr>app_company = None, app_safeRounds = [], app_pricingRounds = [],
                 app_activeTab = ''setup''\<rparr>"

definition handleCompanySetup :: "Company \<Rightarrow> AppState \<Rightarrow> AppState" where
  "handleCompanySetup companyData st =
     st\<lparr>app_company := Some companyData, app_activeTab := ''safe''\<rparr>"

text \<open>
  The identifiers come from \<open>Math.random\<close>; the handlers take the fresh identifier as
  an argument. The spread \<open>{...safeData, id, converted: false}\<close> sets both fields over
  whatever the argument carries.
\<close>

definition handleSafeRound :: "string \<Rightarrow> SafeInvestment \<Rightarrow> AppState \<Rightarrow> AppState" where
  "handleSafeRound newId safeData st =
     st\<lparr>app_safeRounds := app_safeRounds st @ [safeData\<lparr>safe_id := newId, converted := False\<rparr>]\<rparr>"

definition handlePricingRound :: "string \<Rightarrow> PricingRoundData \<Rightarrow> AppState \<Rightarrow> AppState" where
  "handlePricingRound newId roundData st =
     st\<lparr>app_pricingRounds := app_pricingRounds st @ [roundData\<lparr>round_id := newId\<rparr>],
        app_safeRounds := map (\<lambda>s. s\<lparr>converted := True\<rparr>) (app_safeRounds st)\<rparr>"

record CompanyForm =
  form_name :: string
  form_foundersShares :: number
  form_totalShares :: number
  form_initialValuation :: number

text \<open>
  \<open>handleSubmit\<close> of CompanySetup builds the company from the parsed fields and hands it
  to \<open>onSetup\<close>, which the page binds to \<open>handleCompanySetup\<close>. There is no other
  statement in it.
\<close>

definition submittedCompany :: "CompanyForm \<Rightarrow> Company" where
  "submittedCompany formData =
     \<lparr>name = form_name formData,
      foundersShares = form_foundersShares formData,
      totalShares = form_totalShares formData,
      initialValuation = form_initialValuation formData\<rparr>"

definition handleSubmit :: "CompanyForm \<Rightarrow> AppState \<Rightarrow> AppState" where
  "handleSubmit formData st = handleCompanySetup (submittedCompany formData) st"

text \<open>The two views as the page renders them from its state (no view without a company).\<close>

definition ownership_view :: "AppState \<Rightarrow> OwnershipState option" where
  "ownership_view st =
     map_option (\<lambda>c. ownershipData c (app_safeRounds st) (app_pricingRounds st)) (app_company st)"

definition exit_view :: "AppState \<Rightarrow> OwnershipStructure option" where
  "exit_view st =
     (case app_company st of
        None \<Rightarrow> None
      | Some c \<Rightarrow> ownershipStructure c (app_safeRounds st) (app_pricingRounds st))"

section \<open>Vocabulary of the properties\<close>

text \<open>Finite numbers, their values, and the finite positive ones.\<close>

fun fin :: "number \<Rightarrow> bool" where
  "fin (Num a) = True"
| "fin _ = False"

fun val :: "number \<Rightarrow> real" where
  "val (Num a) = a"
| "val _ = 0"

definition pos :: "number \<Rightarrow> bool" where
  "pos x = (fin x \<and> 0 < val x)"

section \<open>Rounding\<close>

text \<open>
  The definitions above compute with exact reals. A double operation returns the exact
  result rounded to the nearest double, to the even one at a tie. \<open>fl\<close> rounds to 53
  significant bits with an unbounded exponent; \<open>dbl\<close> is the rounding of the double
  format: a result that \<open>fl\<close> rounds to \<open>2 ^ 1024\<close> or beyond overflows to an infinity,
  and a result below \<open>2 ^ - 1022\<close> is rounded to a multiple of \<open>2 ^ - 1074\<close> (a subnormal
  number or zero). The sign of zero is not modelled.
\<close>

definition rhe :: "real \<Rightarrow> int" where
  "rhe y = (let f = \<lfloor>y\<rfloor>; d = y - of_int f
            in if d < 1 / 2 then f else if 1 / 2 < d then f + 1
               else if even f then f else f + 1)"

definition fl :: "real \<Rightarrow> real" where
  "fl x = (if x = 0 then 0
           else let q = 2 powr (of_int \<lfloor>log 2 \<bar>x\<bar>\<rfloor> - 52)
                in of_int (rhe (x / q)) * q)"

definition dbl :: "real \<Rightarrow> number" where
  "dbl x = (if 2 ^ 1024 \<le> \<bar>fl x\<bar> then (if 0 < x then PosInf else NegInf)
            else if \<bar>x\<bar> < 1 / 2 ^ 1022
              then Num (of_int (rhe (x * 2 ^ 1074)) / 2 ^ 1074)
            else Num (fl x))"

text \<open>
  What the properties below use of a rounding: on zero and on the results between
  \<open>2 ^ - 1022\<close> and \<open>2 ^ 1023\<close> in absolute value it returns a finite number with a
  relative error of at most \<open>2 ^ - 53\<close>, and it leaves 1 alone. \<open>dbl\<close> is one, and
  \<open>Num\<close>, which does not round, is another.
\<close>

definition unit_roundoff :: real where
  "unit_roundoff = 1 / 2 ^ 53"

definition in_range :: "real \<Rightarrow> bool" where
  "in_range x = (x = 0 \<or> (1 / 2 ^ 1022 \<le> \<bar>x\<bar> \<and> \<bar>x\<bar> \<le> 2 ^ 1023))"

definition rounding :: "(real \<Rightarrow> number) \<Rightarrow> bool" where
  "rounding rnd =
     ((\<forall>x. in_range x \<longrightarrow> fin (rnd x) \<and> \<bar>val (rnd x) - x\<bar> \<le> \<bar>x\<bar> * unit_roundoff)
      \<and> rnd 1 = Num 1)"

text \<open>The four operations, each the exact operation followed by the rounding.\<close>

definition round_num :: "(real \<Rightarrow> number) \<Rightarrow> number \<Rightarrow> number" where
  "round_num rnd x = (case x of Num a \<Rightarrow> rnd a | _ \<Rightarrow> x)"

definition r_add :: "(real \<Rightarrow> number) \<Rightarrow> number \<Rightarrow> number \<Rightarrow> number" where
  "r_add rnd a b = round_num rnd (js_add a b)"

definition r_sub :: "(real \<Rightarrow> number) \<Rightarrow> number \<Rightarrow> number \<Rightarrow> number" where
  "r_sub rnd a b = round_num rnd (js_sub a b)"

definition r_mul :: "(real \<Rightarrow> number) \<Rightarrow> number \<Rightarrow> number \<Rightarrow> number" where
  "r_mul rnd a b = round_num rnd (js_mul a b)"

definition r_div :: "(real \<Rightarrow> number) \<Rightarrow> number \<Rightarrow> number \<Rightarrow> number" where
  "r_div rnd a b = round_num rnd (js_div a b)"

definition reduce_sum_r :: "(real \<Rightarrow> number) \<Rightarrow> ('a \<Rightarrow> number) \<Rightarrow> 'a list \<Rightarrow> number" where
  "reduce_sum_r rnd f xs = foldl (\<lambda>sum x. r_add rnd sum (f x)) (Num 0) xs"

section \<open>The computations with rounded operations\<close>

text \<open>
  The SAFE conversion, the round pricing, the exit view, the ownership view and the exit
  calculation once more, expression for expression as above, with the rounded operations
  in place of the exact ones. With the identity as rounding they are the definitions
  above; with \<open>dbl\<close> they compute what the program computes in doubles.
\<close>

definition discountPrice_r :: "(real \<Rightarrow> number) \<Rightarrow> number \<Rightarrow> SafeInvestment \<Rightarrow> number" where
  "discountPrice_r rnd preMoney s =
     r_mul rnd preMoney (r_sub rnd (Num 1) (r_div rnd (discount s) (Num 100)))"

definition conversionPrice_r :: "(real \<Rightarrow> number) \<Rightarrow> number \<Rightarrow> SafeInvestment \<Rightarrow> number" where
  "conversionPrice_r rnd preMoney s = js_min (discountPrice_r rnd preMoney s) (capPrice s)"

definition sharePrice_r ::
  "(real \<Rightarrow> number) \<Rightarrow> number \<Rightarrow> number \<Rightarrow> SafeInvestment \<Rightarrow> number" where
  "sharePrice_r rnd preMoney tot s = r_div rnd (conversionPrice_r rnd preMoney s) tot"

definition convertedShares_r ::
  "(real \<Rightarrow> number) \<Rightarrow> number \<Rightarrow> number \<Rightarrow> SafeInvestment \<Rightarrow> number" where
  "convertedShares_r rnd preMoney tot s =
     r_div rnd (amount s) (sharePrice_r rnd preMoney tot s)"

definition roundSafeInvestment_r :: "(real \<Rightarrow> number) \<Rightarrow> SafeInvestment list \<Rightarrow> number" where
  "roundSafeInvestment_r rnd safeRounds = reduce_sum_r rnd amount safeRounds"

definition effectivePreMoney_r ::
  "(real \<Rightarrow> number) \<Rightarrow> SafeInvestment list \<Rightarrow> PricingRoundData \<Rightarrow> number" where
  "effectivePreMoney_r rnd safeRounds r =
     r_sub rnd (preMoneyValuation r) (roundSafeInvestment_r rnd safeRounds)"

definition pricePerShare_r ::
  "(real \<Rightarrow> number) \<Rightarrow> SafeInvestment list \<Rightarrow> number \<Rightarrow> PricingRoundData \<Rightarrow> number" where
  "pricePerShare_r rnd safeRounds tot r =
     r_div rnd (effectivePreMoney_r rnd safeRounds r) tot"

definition newShares_r ::
  "(real \<Rightarrow> number) \<Rightarrow> SafeInvestment list \<Rightarrow> number \<Rightarrow> PricingRoundData \<Rightarrow> number" where
  "newShares_r rnd safeRounds tot r =
     r_div rnd (investment r) (pricePerShare_r rnd safeRounds tot r)"

definition os_safe_r ::
  "(real \<Rightarrow> number) \<Rightarrow> number \<Rightarrow> number \<Rightarrow> SafeInvestment \<Rightarrow> ExitStakeholder" where
  "os_safe_r rnd preMoney tot s =
     \<lparr>es_name = investorName s,
      es_shares = convertedShares_r rnd preMoney tot s,
      es_investment = amount s,
      es_type = safe\<rparr>"

definition os_investor_r :: "(real \<Rightarrow> number) \<Rightarrow> number \<Rightarrow> Investor \<Rightarrow> ExitStakeholder" where
  "os_investor_r rnd pps i =
     \<lparr>es_name = inv_name i,
      es_shares = r_div rnd (inv_investment i) pps,
      es_investment = inv_investment i,
      es_type = investor\<rparr>"

definition os_round_r ::
  "(real \<Rightarrow> number) \<Rightarrow> SafeInvestment list \<Rightarrow> OwnershipStructure \<Rightarrow> PricingRoundData
     \<Rightarrow> OwnershipStructure" where
  "os_round_r rnd safeRounds st r =
     (let tot = os_totalShares st;
          pps = pricePerShare_r rnd safeRounds tot r;
          safeShares = reduce_sum_r rnd (convertedShares_r rnd (preMoneyValuation r) tot) safeRounds
      in \<lparr>os_stakeholders =
            os_stakeholders st @ map (os_safe_r rnd (preMoneyValuation r) tot) safeRounds
              @ map (os_investor_r rnd pps) (newInvestors r),
          os_totalShares =
            r_add rnd tot (r_add rnd safeShares (newShares_r rnd safeRounds tot r))\<rparr>)"

definition ownershipStructure_r ::
  "(real \<Rightarrow> number) \<Rightarrow> Company \<Rightarrow> SafeInvestment list \<Rightarrow> PricingRoundData list
     \<Rightarrow> OwnershipStructure option" where
  "ownershipStructure_r rnd company safeRounds pricingRounds =
     (if pricingRounds = [] then None
      else Some (foldl (os_round_r rnd safeRounds) (os_init company) pricingRounds))"

definition ot_safe_entry_r ::
  "(real \<Rightarrow> number) \<Rightarrow> number \<Rightarrow> number \<Rightarrow> SafeInvestment \<Rightarrow> OwnershipBreakdown" where
  "ot_safe_entry_r rnd preMoney tot s =
     \<lparr>stakeholder = investorName s,
      shares = convertedShares_r rnd preMoney tot s,
      ownership = Num 0,
      ob_investment = amount s,
      ob_type = safe\<rparr>"

definition ot_safe_r ::
  "(real \<Rightarrow> number) \<Rightarrow> number \<Rightarrow> number \<Rightarrow> number \<times> OwnershipBreakdown list
     \<Rightarrow> SafeInvestment \<Rightarrow> number \<times> OwnershipBreakdown list" where
  "ot_safe_r rnd preMoney tot acc s =
     (if \<not> converted s then acc
      else
        (r_add rnd (fst acc) (convertedShares_r rnd preMoney tot s),
         (case find (\<lambda>e. stakeholder e = investorName s) (snd acc) of
            None \<Rightarrow> snd acc @ [ot_safe_entry_r rnd preMoney tot s]
          | Some _ \<Rightarrow> snd acc)))"

definition ot_investor_r :: "(real \<Rightarrow> number) \<Rightarrow> number \<Rightarrow> Investor \<Rightarrow> OwnershipBreakdown" where
  "ot_investor_r rnd pps i =
     \<lparr>stakeholder = inv_name i,
      shares = r_div rnd (inv_investment i) pps,
      ownership = Num 0,
      ob_investment = inv_investment i,
      ob_type = investor\<rparr>"

definition ot_round_r ::
  "(real \<Rightarrow> number) \<Rightarrow> SafeInvestment list \<Rightarrow> OwnershipState \<Rightarrow> PricingRoundData
     \<Rightarrow> OwnershipState" where
  "ot_round_r rnd safeRounds st r =
     (let tot = ot_totalShares st;
          acc = foldl (ot_safe_r rnd (preMoneyValuation r) tot)
                  (Num 0, ot_stakeholders st) safeRounds;
          safeShares = fst acc;
          pps = pricePerShare_r rnd safeRounds tot r
      in \<lparr>ot_totalShares =
            r_add rnd tot (r_add rnd safeShares (newShares_r rnd safeRounds tot r)),
          ot_currentValuation = r_add rnd (preMoneyValuation r) (investment r),
          ot_stakeholders = snd acc @ map (ot_investor_r rnd pps) (newInvestors r)\<rparr>)"

definition ownershipData_r ::
  "(real \<Rightarrow> number) \<Rightarrow> Company \<Rightarrow> SafeInvestment list \<Rightarrow> PricingRoundData list
     \<Rightarrow> OwnershipState" where
  "ownershipData_r rnd company safeRounds pricingRounds =
     (let st = foldl (ot_round_r rnd safeRounds) (ot_init company) pricingRounds
      in st\<lparr>ot_stakeholders :=
              map (\<lambda>e. e\<lparr>ownership :=
                          r_mul rnd (r_div rnd (shares e) (ot_totalShares st)) (Num 100)\<rparr>)
                (ot_stakeholders st)\<rparr>)"

definition investorPayout_r :: "(real \<Rightarrow> number) \<Rightarrow> number \<Rightarrow> ExitStakeholder \<Rightarrow> InvestorPayout" where
  "investorPayout_r rnd pps s =
     (let p = r_mul rnd (es_shares s) pps
      in \<lparr>ip_name = es_name s,
          ip_investment = es_investment s,
          payout = p,
          roi = (if js_gt (es_investment s) (Num 0)
                 then r_mul rnd
                        (r_div rnd (r_sub rnd p (es_investment s)) (es_investment s))
                        (Num 100)
                 else Num 0),
          multiple = (if js_gt (es_investment s) (Num 0)
                      then r_div rnd p (es_investment s)
                      else Num 0)\<rparr>)"

definition exitCalculation_r ::
  "(real \<Rightarrow> number) \<Rightarrow> OwnershipStructure \<Rightarrow> number \<Rightarrow> ExitCalculation" where
  "exitCalculation_r rnd os exitVal =
     (let pps = r_div rnd exitVal (os_totalShares os);
          fp = (case find (\<lambda>s. es_name s = ''Founders'') (os_stakeholders os) of
                  Some f \<Rightarrow> r_mul rnd (es_shares f) pps
                | None \<Rightarrow> Num 0);
          ips = map (investorPayout_r rnd pps)
                  (filter (\<lambda>s. es_type s \<noteq> founder) (os_stakeholders os))
      in \<lparr>exitValuation = exitVal,
          founderPayout = fp,
          founderROI = Num 0,
          investorPayouts = ips,
          totalPayouts = r_add rnd fp (reduce_sum_r rnd payout ips)\<rparr>)"

section \<open>Vocabulary of the rounded properties\<close>

text \<open>
  \<open>near k x y\<close>: the non-negative numbers \<open>x\<close> and \<open>y\<close> differ by at most \<open>k\<close>
  roundings, each way.
\<close>

definition near :: "nat \<Rightarrow> real \<Rightarrow> real \<Rightarrow> bool" where
  "near k x y =
     (0 \<le> y \<and> y * (1 - unit_roundoff) ^ k \<le> x \<and> x * (1 - unit_roundoff) ^ k \<le> y)"


text \<open>
  \<open>mag k x\<close>: \<open>x\<close> lies between \<open>2 ^ - k\<close> and \<open>2 ^ k\<close>; \<open>sized k x\<close>: the number
  \<open>x\<close> is finite and of that magnitude.
\<close>

definition mag :: "nat \<Rightarrow> real \<Rightarrow> bool" where
  "mag k x = (1 / 2 ^ k \<le> x \<and> x \<le> 2 ^ k)"

definition sized :: "nat \<Rightarrow> number \<Rightarrow> bool" where
  "sized k x = (fin x \<and> mag k (val x))"


definition valid_safe :: "nat \<Rightarrow> SafeInvestment \<Rightarrow> bool" where
  "valid_safe b s =
     (sized b (amount s)
      \<and> (discount s = Num 0 \<or> sized b (discount s)) \<and> val (discount s) \<le> 99
      \<and> (case valuationCap s of None \<Rightarrow> True | Some c \<Rightarrow> sized b c))"






text \<open>
  The conversion price per share as section 4.2 of the specification words it, in
  rounded operations: the discount price and the cap price are both per share, the cap
  price is infinite when there is no cap, and the price is the smaller of the two.
\<close>

definition spec_conversionPricePerShare ::
  "(real \<Rightarrow> number) \<Rightarrow> number \<Rightarrow> number \<Rightarrow> SafeInvestment \<Rightarrow> number" where
  "spec_conversionPricePerShare rnd preMoney tot s =
     js_min
       (r_mul rnd (r_div rnd preMoney tot) (r_sub rnd (Num 1) (r_div rnd (discount s) (Num 100))))
       (case valuationCap s of None \<Rightarrow> PosInf | Some c \<Rightarrow> r_div rnd c tot)"



section \<open>The scenario of the specification\<close>

definition acme :: Company where
  "acme = \<lparr>name = ''Acme'', foundersShares = Num 8000000, totalShares = Num 10000000,
           initialValuation = Num 1000000\<rparr>"

definition angel :: SafeInvestment where
  "angel = \<lparr>safe_id = ''s1'', investorName = ''Angel'', amount = Num 250000,
            discount = Num 20, valuationCap = Some (Num 5000000), converted = True\<rparr>"

definition seriesA :: PricingRoundData where
  "seriesA = \<lparr>round_id = ''r1'', round_name = ''Series A'', preMoneyValuation = Num 8000000,
              investment = Num 2000000,
              newInvestors = [\<lparr>inv_name = ''VC'', inv_investment = Num 2000000\<rparr>]\<rparr>"

text \<open>The state of the page after the company form, the SAFE and the round.\<close>

definition scenario :: AppState where
  "scenario =
     handlePricingRound ''r1'' seriesA
       (handleSafeRound ''s1'' angel
          (handleSubmit
             \<lparr>form_name = ''Acme'', form_foundersShares = Num 8000000,
              form_totalShares = Num 10000000, form_initialValuation = Num 1000000\<rparr>
             app_start))"

section \<open>Further inputs\<close>

text \<open>A SAFE without discount and without cap.\<close>

definition plain :: SafeInvestment where
  "plain = \<lparr>safe_id = ''s0'', investorName = ''Seed'', amount = Num 100000,
            discount = Num 0, valuationCap = None, converted = True\<rparr>"

text \<open>A second round, added to the scenario after the first.\<close>

definition seriesB :: PricingRoundData where
  "seriesB = \<lparr>round_id = ''r2'', round_name = ''Series B'', preMoneyValuation = Num 20000000,
              investment = Num 5000000,
              newInvestors = [\<lparr>inv_name = ''Growth'', inv_investment = Num 5000000\<rparr>]\<rparr>"

definition two_rounds :: AppState where
  "two_rounds = handlePricingRound ''r2'' seriesB scenario"

text \<open>A SAFE added to the scenario after its round.\<close>

definition late :: SafeInvestment where
  "late = \<lparr>safe_id = '''', investorName = ''Late'', amount = Num 100000,
           discount = Num 10, valuationCap = None, converted = False\<rparr>"

definition late_safe :: AppState where
  "late_safe = handleSafeRound ''s2'' late scenario"

text \<open>A SAFE larger than the pre-money valuation of the round that follows it.\<close>

definition whale :: SafeInvestment where
  "whale = \<lparr>safe_id = '''', investorName = ''Whale'', amount = Num 9000000,
            discount = Num 20, valuationCap = Some (Num 5000000), converted = False\<rparr>"

definition oversubscribed :: AppState where
  "oversubscribed =
     handlePricingRound ''r1'' seriesA
       (handleSafeRound ''s1'' whale (handleCompanySetup acme app_start))"

text \<open>The round of the scenario with a second investor who puts in nothing.\<close>

definition seriesA_advisor :: PricingRoundData where
  "seriesA_advisor =
     seriesA\<lparr>newInvestors := newInvestors seriesA
                 @ [\<lparr>inv_name = ''Advisor'', inv_investment = Num 0\<rparr>]\<rparr>"

text \<open>A company form with more founder shares than shares, and a negative valuation.\<close>

definition bad_form :: CompanyForm where
  "bad_form = \<lparr>form_name = ''Acme'', form_foundersShares = Num 20,
               form_totalShares = Num 10, form_initialValuation = Num (- 5)\<rparr>"

text \<open>The cap table of the scenario, as the exit view computes it.\<close>

definition scenario_cap_table :: OwnershipStructure where
  "scenario_cap_table =
     \<lparr>os_stakeholders =
        [\<lparr>es_name = ''Founders'', es_shares = Num 8000000, es_investment = Num 0,
          es_type = founder\<rparr>,
         \<lparr>es_name = ''Angel'', es_shares = Num 500000, es_investment = Num 250000,
          es_type = safe\<rparr>,
         \<lparr>es_name = ''VC'', es_shares = Num (80000000 / 31), es_investment = Num 2000000,
          es_type = investor\<rparr>],
      os_totalShares = Num (405500000 / 31)\<rparr>"

text \<open>Two SAFE notes under one name.\<close>

definition twin1 :: SafeInvestment where
  "twin1 = \<lparr>safe_id = '''', investorName = ''Twin'', amount = Num 250000,
            discount = Num 20, valuationCap = Some (Num 5000000), converted = False\<rparr>"

definition twin2 :: SafeInvestment where
  "twin2 = \<lparr>safe_id = '''', investorName = ''Twin'', amount = Num 100000,
            discount = Num 0, valuationCap = None, converted = False\<rparr>"

text \<open>Both notes before the round of the scenario.\<close>

definition twins :: AppState where
  "twins =
     handlePricingRound ''r1'' seriesA
       (handleSafeRound ''s2'' twin2
          (handleSafeRound ''s1'' twin1 (handleCompanySetup acme app_start)))"

text \<open>Both notes after the round of the scenario.\<close>

definition twins_late :: AppState where
  "twins_late = handleSafeRound ''s3'' twin2 (handleSafeRound ''s2'' twin1 scenario)"

text \<open>Both notes before the round, under the name of the round's investor.\<close>

definition twins_vc :: AppState where
  "twins_vc =
     handlePricingRound ''r1'' seriesA
       (handleSafeRound ''s2'' (twin2\<lparr>investorName := ''VC''\<rparr>)
          (handleSafeRound ''s1'' (twin1\<lparr>investorName := ''VC''\<rparr>)
             (handleCompanySetup acme app_start)))"

text \<open>The SAFE of the scenario with a cap of 0.\<close>

definition zero_cap :: SafeInvestment where
  "zero_cap = angel\<lparr>valuationCap := Some (Num 0)\<rparr>"

text \<open>The SAFE of the scenario without its cap, and a round at a pre-money valuation of 9000000.\<close>

definition uncapped :: SafeInvestment where
  "uncapped = angel\<lparr>valuationCap := None\<rparr>"

definition seriesA9 :: PricingRoundData where
  "seriesA9 = seriesA\<lparr>preMoneyValuation := Num 9000000\<rparr>"


section \<open>Evaluation of the scenario\<close>

lemmas scen = acme_def angel_def seriesA_def

lemmas conv = discountPrice_def capPrice_def conversionPrice_def sharePrice_def
  convertedShares_def roundSafeInvestment_def effectivePreMoney_def pricePerShare_def
  newShares_def reduce_sum_def js_sub_def

lemmas handlers = handlePricingRound_def handleSafeRound_def handleSubmit_def
  handleCompanySetup_def submittedCompany_def app_start_def

lemmas ot_defs = ownershipData_def ot_round_def ot_init_def ot_safe_def ot_safe_entry_def
  ot_investor_def

lemmas os_defs = ownershipStructure_def os_round_def os_init_def os_safe_def os_investor_def

lemma scenario_state:
  "scenario = \<lparr>app_company = Some acme, app_safeRounds = [angel],
                app_pricingRounds = [seriesA], app_activeTab = ''safe''\<rparr>"
  by (simp add: scenario_def handlers scen)

lemma scenario_ownership:
  "ownership_view scenario = Some
     \<lparr>ot_totalShares = Num (405500000 / 31), ot_currentValuation = Num 10000000,
      ot_stakeholders =
        [\<lparr>stakeholder = ''Founders'', shares = Num 8000000, ownership = Num (49600 / 811),
          ob_investment = Num 0, ob_type = founder\<rparr>,
         \<lparr>stakeholder = ''Angel'', shares = Num 500000, ownership = Num (3100 / 811),
          ob_investment = Num 250000, ob_type = safe\<rparr>,
         \<lparr>stakeholder = ''VC'', shares = Num (80000000 / 31), ownership = Num (16000 / 811),
          ob_investment = Num 2000000, ob_type = investor\<rparr>]\<rparr>"
  by (simp add: scenario_state ownership_view_def scen conv ot_defs Let_def)

lemma scenario_exit:
  "exit_view scenario = Some
     \<lparr>os_stakeholders =
        [\<lparr>es_name = ''Founders'', es_shares = Num 8000000, es_investment = Num 0,
          es_type = founder\<rparr>,
         \<lparr>es_name = ''Angel'', es_shares = Num 500000, es_investment = Num 250000,
          es_type = safe\<rparr>,
         \<lparr>es_name = ''VC'', es_shares = Num (80000000 / 31), es_investment = Num 2000000,
          es_type = investor\<rparr>],
      os_totalShares = Num (405500000 / 31)\<rparr>"
  by (simp add: scenario_state exit_view_def scen conv os_defs Let_def)

lemma scenario_preview:
  "calculations
     \<lparr>form_preMoneyValuation = Some (Num 8000000), form_investment = Some (Num 2000000)\<rparr>
     acme [angel]
   = Some
     \<lparr>preMoneyPricePerShare = Num (31 / 40), calc_newShares = Num (80000000 / 31),
      calc_safeShares = Num 500000, totalSharesAfter = Num (405500000 / 31),
      postMoneyPricePerShare = Num (620 / 811), postMoneyValuation = Num 10000000,
      founderOwnership = Num (49600 / 811), safeOwnership = Num (3100 / 811),
      newInvestorOwnership = Num (16000 / 811)\<rparr>"
  by (simp add: scen conv calculations_def Let_def)

text \<open>
  C1. In the scenario of the specification (founders 8,000,000 of 10,000,000 shares, one
  SAFE of 250,000 at 20 percent discount and a 5,000,000 cap, one round at 8,000,000
  pre-money raising 2,000,000 from one investor) the SAFE converts at 0.5 per share into
  500,000 shares, the effective pre-money is 7,750,000, the round price is 0.775 per
  share, the investor receives 80,000,000/31 shares (2,580,645.16 to the cent), the total
  is 405,500,000/31 shares (13,080,645.16) and the founders own 49,600/811 percent
  (61.16). The ownership view of the page and the preview of the round form agree on it.
\<close>

theorem C1_scenario_values:
  "sharePrice (preMoneyValuation seriesA) (totalShares acme) angel = Num (1 / 2)
   \<and> convertedShares (preMoneyValuation seriesA) (totalShares acme) angel = Num 500000
   \<and> effectivePreMoney [angel] seriesA = Num 7750000
   \<and> pricePerShare [angel] (totalShares acme) seriesA = Num (775 / 1000)
   \<and> map_option (\<lambda>st. map shares (ot_stakeholders st)) (ownership_view scenario)
       = Some [Num 8000000, Num 500000, Num (80000000 / 31)]
   \<and> map_option ot_totalShares (ownership_view scenario) = Some (Num (405500000 / 31))
   \<and> map_option (\<lambda>st. map ownership (ot_stakeholders st)) (ownership_view scenario)
       = Some [Num (49600 / 811), Num (3100 / 811), Num (16000 / 811)]
   \<and> map_option (\<lambda>c. (calc_safeShares c, preMoneyPricePerShare c, calc_newShares c,
                        totalSharesAfter c, founderOwnership c))
        (calculations
           \<lparr>form_preMoneyValuation = Some (Num 8000000),
            form_investment = Some (Num 2000000)\<rparr> acme [angel])
       = Some (Num 500000, Num (775 / 1000), Num (80000000 / 31), Num (405500000 / 31),
               Num (49600 / 811))
   \<and> \<bar>80000000 / 31 - 2580645.16\<bar> < (1 / 100 :: real)
   \<and> \<bar>405500000 / 31 - 13080645.16\<bar> < (1 / 100 :: real)
   \<and> \<bar>49600 / 811 - 61.16\<bar> < (1 / 100 :: real)"
proof -
  have prices:
    "sharePrice (preMoneyValuation seriesA) (totalShares acme) angel = Num (1 / 2)"
    "convertedShares (preMoneyValuation seriesA) (totalShares acme) angel = Num 500000"
    "effectivePreMoney [angel] seriesA = Num 7750000"
    "pricePerShare [angel] (totalShares acme) seriesA = Num (775 / 1000)"
    by (simp_all add: scen conv)
  show ?thesis
    by (simp add: prices scenario_ownership scenario_preview)
qed

section \<open>Finite numbers\<close>

lemma fin_Num: "fin x \<Longrightarrow> x = Num (val x)"
  by (cases x) simp_all

lemma pos_Num: "pos x \<Longrightarrow> x = Num (val x) \<and> 0 < val x"
  by (cases x) (simp_all add: pos_def)

section \<open>The inner loop of the ownership view\<close>

lemma ot_safe_fold_prefix:
  "\<exists>new. snd (foldl (ot_safe pm t) (acc, sts) safes) = sts @ new"
proof (induction safes arbitrary: acc sts)
  case Nil
  then show ?case by simp
next
  case (Cons s safes)
  show ?case
  proof (cases "converted s")
    case False
    then show ?thesis using Cons.IH [of acc sts] by (simp add: ot_safe_def)
  next
    case True
    obtain acc' new1 where step: "ot_safe pm t (acc, sts) s = (acc', sts @ new1)"
      using True by (cases "find (\<lambda>e. stakeholder e = investorName s) sts")
        (simp_all add: ot_safe_def)
    from Cons.IH [of acc' "sts @ new1"] obtain new2
      where "snd (foldl (ot_safe pm t) (acc', sts @ new1) safes) = (sts @ new1) @ new2" ..
    then show ?thesis by (simp add: step)
  qed
qed

lemma ot_safe_fold_sum:
  "fst (foldl (ot_safe pm t) (acc, sts) safes)
   = foldl (\<lambda>sum s. js_add sum (convertedShares pm t s)) acc (filter converted safes)"
  by (induction safes arbitrary: acc sts) (simp_all add: ot_safe_def)

section \<open>Conversion at every round\<close>

lemma two_rounds_state:
  "two_rounds = \<lparr>app_company = Some acme, app_safeRounds = [angel],
                   app_pricingRounds = [seriesA, seriesB], app_activeTab = ''safe''\<rparr>"
  by (simp add: two_rounds_def scenario_state handlers scen seriesB_def)

text \<open>
  C2. With the scenario followed by a second round, the SAFE of the scenario is converted
  again at the second round: the exit view holds two entries for it, one per round, and
  the share total of the ownership view after the second round is the total after the
  first plus the second conversion of the SAFE (20,275,000/31 shares) plus the shares of
  the new round.
\<close>

theorem C2_safe_converted_at_every_round:
  "map_option (\<lambda>os. map es_name (os_stakeholders os)) (exit_view two_rounds)
     = Some [''Founders'', ''Angel'', ''VC'', ''Angel'', ''Growth'']
   \<and> map_option (\<lambda>os. map es_shares (filter (\<lambda>e. es_name e = ''Angel'') (os_stakeholders os)))
        (exit_view two_rounds)
     = Some [Num 500000, Num (20275000 / 31)]
   \<and> map_option ot_totalShares (ownership_view scenario) = Some (Num (405500000 / 31))
   \<and> convertedShares (preMoneyValuation seriesB) (Num (405500000 / 31)) angel
     = Num (20275000 / 31)
   \<and> newShares [angel] (Num (405500000 / 31)) seriesB = Num (8110000000 / 2449)
   \<and> map_option ot_totalShares (ownership_view two_rounds)
     = Some (Num (405500000 / 31 + (20275000 / 31 + 8110000000 / 2449)))"
proof -
  have e: "exit_view two_rounds = Some
     \<lparr>os_stakeholders =
        [\<lparr>es_name = ''Founders'', es_shares = Num 8000000, es_investment = Num 0,
          es_type = founder\<rparr>,
         \<lparr>es_name = ''Angel'', es_shares = Num 500000, es_investment = Num 250000,
          es_type = safe\<rparr>,
         \<lparr>es_name = ''VC'', es_shares = Num (80000000 / 31), es_investment = Num 2000000,
          es_type = investor\<rparr>,
         \<lparr>es_name = ''Angel'', es_shares = Num (20275000 / 31), es_investment = Num 250000,
          es_type = safe\<rparr>,
         \<lparr>es_name = ''Growth'', es_shares = Num (8110000000 / 2449),
          es_investment = Num 5000000, es_type = investor\<rparr>],
      os_totalShares = Num (41746225000 / 2449)\<rparr>"
    by (simp add: two_rounds_state exit_view_def scen seriesB_def conv os_defs Let_def)
  have o: "map_option ot_totalShares (ownership_view two_rounds)
     = Some (Num (41746225000 / 2449))"
    by (simp add: two_rounds_state ownership_view_def scen seriesB_def conv ot_defs Let_def)
  have c: "convertedShares (preMoneyValuation seriesB) (Num (405500000 / 31)) angel
     = Num (20275000 / 31)"
    "newShares [angel] (Num (405500000 / 31)) seriesB = Num (8110000000 / 2449)"
    by (simp_all add: scen seriesB_def conv)
  show ?thesis
    by (simp add: e o c scenario_ownership)
qed

section \<open>A round below the SAFE total\<close>

lemma oversubscribed_state:
  "oversubscribed = \<lparr>app_company = Some acme, app_safeRounds = [whale\<lparr>safe_id := ''s1'', converted := True\<rparr>],
                   app_pricingRounds = [seriesA], app_activeTab = ''safe''\<rparr>"
  by (simp add: oversubscribed_def handlers scen whale_def)

text \<open>
  Against C5 as stated: a SAFE of 9,000,000 followed by the round of the scenario
  (pre-money 8,000,000). The round is stored, the SAFE is marked converted, and the
  ownership view issues 18,000,000 shares to the SAFE and minus 20,000,000 to the
  investor of the round.
\<close>

theorem C5_round_not_rejected:
  "map converted (app_safeRounds oversubscribed) = [True]
   \<and> map round_name (app_pricingRounds oversubscribed) = [''Series A'']
   \<and> map_option (\<lambda>st. map (\<lambda>e. (stakeholder e, shares e)) (ot_stakeholders st))
        (ownership_view oversubscribed)
     = Some [(''Founders'', Num 8000000), (''Whale'', Num 18000000), (''VC'', Num (- 20000000))]
   \<and> map_option ot_totalShares (ownership_view oversubscribed) = Some (Num 8000000)
   \<and> map_option (\<lambda>os. map es_shares (os_stakeholders os)) (exit_view oversubscribed)
     = Some [Num 8000000, Num 18000000, Num (- 20000000)]
   \<and> roundSafeInvestment (app_safeRounds oversubscribed) = Num 9000000
   \<and> map preMoneyValuation (app_pricingRounds oversubscribed) = [Num 8000000]"
  by (simp add: oversubscribed_state ownership_view_def exit_view_def scen whale_def conv
      ot_defs os_defs Let_def)

text \<open>
  C5, amended. A round whose pre-money valuation is at most the total of the SAFE
  amounts is processed like any other round and nothing fails: the page stores the round
  and marks every SAFE converted, the effective pre-money is the pre-money minus the SAFE
  total (zero or negative), and the round step of each view appends one entry for every
  new investor of the round, priced at that effective pre-money over the share total.
\<close>

theorem C5_round_without_guard:
  assumes "roundSafeInvestment safeRounds = Num a" and "preMoneyValuation r = Num p"
    and "p \<le> a"
  shows "app_pricingRounds (handlePricingRound i r app) = app_pricingRounds app @ [r\<lparr>round_id := i\<rparr>]
    \<and> list_all converted (app_safeRounds (handlePricingRound i r app))
    \<and> effectivePreMoney safeRounds r = Num (p - a) \<and> p - a \<le> 0
    \<and> os_stakeholders (os_round safeRounds os r)
        = os_stakeholders os @ map (os_safe (Num p) (os_totalShares os)) safeRounds
            @ map (os_investor (js_div (Num (p - a)) (os_totalShares os))) (newInvestors r)
    \<and> (\<exists>new. ot_stakeholders (ot_round safeRounds st r)
          = ot_stakeholders st @ new
              @ map (ot_investor (js_div (Num (p - a)) (ot_totalShares st))) (newInvestors r))"
proof -
  have epm: "effectivePreMoney safeRounds r = Num (p - a)"
    by (simp add: effectivePreMoney_def assms(1,2) js_sub_def)
  have h: "app_pricingRounds (handlePricingRound i r app) = app_pricingRounds app @ [r\<lparr>round_id := i\<rparr>]"
    "list_all converted (app_safeRounds (handlePricingRound i r app))"
    by (simp_all add: handlePricingRound_def list_all_iff)
  have os: "os_stakeholders (os_round safeRounds os r)
        = os_stakeholders os @ map (os_safe (Num p) (os_totalShares os)) safeRounds
            @ map (os_investor (js_div (Num (p - a)) (os_totalShares os))) (newInvestors r)"
    by (simp add: os_round_def Let_def pricePerShare_def epm assms(2))
  obtain new where
    "snd (foldl (ot_safe (preMoneyValuation r) (ot_totalShares st)) (Num 0, ot_stakeholders st)
       safeRounds) = ot_stakeholders st @ new"
    using ot_safe_fold_prefix by blast
  then have ot: "\<exists>new. ot_stakeholders (ot_round safeRounds st r)
          = ot_stakeholders st @ new
              @ map (ot_investor (js_div (Num (p - a)) (ot_totalShares st))) (newInvestors r)"
    by (simp add: ot_round_def Let_def pricePerShare_def epm)
  show ?thesis using epm h os ot assms(3) by simp
qed

theorem C5_round_without_guard_witness:
  "roundSafeInvestment [whale] = Num 9000000 \<and> preMoneyValuation seriesA = Num 8000000
   \<and> (8000000 :: real) \<le> 9000000
   \<and> effectivePreMoney [whale] seriesA = Num (- 1000000)
   \<and> os_stakeholders (os_round [whale] (os_init acme) seriesA)
       = os_stakeholders (os_init acme) @ map (os_safe (Num 8000000) (Num 10000000)) [whale]
           @ map (os_investor (js_div (Num (- 1000000)) (Num 10000000))) (newInvestors seriesA)
   \<and> list_all converted (app_safeRounds (handlePricingRound ''r1'' seriesA
        (handleSafeRound ''s1'' whale (handleCompanySetup acme app_start))))"
proof -
  have a: "roundSafeInvestment [whale] = Num 9000000" "preMoneyValuation seriesA = Num 8000000"
    "(8000000 :: real) \<le> 9000000"
    by (simp_all add: whale_def seriesA_def roundSafeInvestment_def reduce_sum_def)
  show ?thesis
    using C5_round_without_guard [OF a, of "''r1''"
        "handleSafeRound ''s1'' whale (handleCompanySetup acme app_start)" "os_init acme"] a
    by (simp add: os_init_def acme_def)
qed

section \<open>The two views on one state\<close>

lemma late_safe_state:
  "late_safe = \<lparr>app_company = Some acme, app_safeRounds = [angel, late\<lparr>safe_id := ''s2''\<rparr>],
                   app_pricingRounds = [seriesA], app_activeTab = ''safe''\<rparr>"
  by (simp add: late_safe_def scenario_state handlers scen late_def)

text \<open>
  C6. With a SAFE added to the scenario after its round, the ownership view skips the
  new SAFE (its flag is unset) and the exit view converts it at the round: the two views
  differ in their stakeholder lists and in their share totals.
\<close>

theorem C6_views_differ:
  "map_option (\<lambda>st. map (\<lambda>e. (stakeholder e, shares e)) (ot_stakeholders st))
        (ownership_view late_safe)
     = Some [(''Founders'', Num 8000000), (''Angel'', Num 500000),
             (''VC'', Num (400000000 / 153))]
   \<and> map_option (\<lambda>os. map (\<lambda>e. (es_name e, es_shares e)) (os_stakeholders os))
        (exit_view late_safe)
     = Some [(''Founders'', Num 8000000), (''Angel'', Num 500000),
             (''Late'', Num (1250000 / 9)), (''VC'', Num (400000000 / 153))]
   \<and> map_option ot_totalShares (ownership_view late_safe) = Some (Num (2006500000 / 153))
   \<and> map_option os_totalShares (exit_view late_safe) = Some (Num (2027750000 / 153))"
  by (simp add: late_safe_state ownership_view_def exit_view_def scen late_def conv
      ot_defs os_defs Let_def)

section \<open>Multiple and return on investment\<close>

text \<open>
  Against C8 as stated: at an exit of 10,000,000 after the scenario's round with an
  investor who put in nothing, the founders' return is the number 0, and so are the
  return and the multiple of that investor.
\<close>

theorem C8_zero_reported:
  "map founderROI
     (exitCalculations [Num 10000000] (ownershipStructure acme [angel] [seriesA_advisor]))
     = [Num 0]
   \<and> map (\<lambda>c. map (\<lambda>p. (ip_name p, ip_investment p, roi p, multiple p)) (investorPayouts c))
       (exitCalculations [Num 10000000] (ownershipStructure acme [angel] [seriesA_advisor]))
     = [[(''Angel'', Num 250000, Num (42900 / 811), Num (1240 / 811)),
         (''VC'', Num 2000000, Num (- (1100 / 811)), Num (800 / 811)),
         (''Advisor'', Num 0, Num 0, Num 0)]]"
  by (simp add: exitCalculations_def exitCalculation_def investorPayout_def scen
      seriesA_advisor_def conv os_defs Let_def)

text \<open>
  C8, amended. In every exit projection the founders' return is reported as the number
  0 (no multiple is computed for them), and for every other stakeholder whose
  investment is not greater than 0 the return and the multiple are the number 0.
\<close>

theorem C8_zero_for_no_investment:
  "founderROI (exitCalculation os exitVal) = Num 0
   \<and> (\<forall>p \<in> set (investorPayouts (exitCalculation os exitVal)).
         \<not> js_gt (ip_investment p) (Num 0) \<longrightarrow> roi p = Num 0 \<and> multiple p = Num 0)"
  by (auto simp add: exitCalculation_def investorPayout_def Let_def)

theorem C8_zero_for_no_investment_witness:
  "\<lparr>ip_name = ''Advisor'', ip_investment = Num 0, payout = Num 0, roi = Num 0, multiple = Num 0\<rparr>
     \<in> set (investorPayouts (exitCalculation
          (foldl (os_round [angel]) (os_init acme) [seriesA_advisor]) (Num 10000000)))
   \<and> \<not> js_gt (Num 0) (Num 0)
   \<and> founderROI (exitCalculation
        (foldl (os_round [angel]) (os_init acme) [seriesA_advisor]) (Num 10000000)) = Num 0"
  using C8_zero_for_no_investment [of
          "foldl (os_round [angel]) (os_init acme) [seriesA_advisor]" "Num 10000000"]
  by (simp add: exitCalculation_def investorPayout_def scen seriesA_advisor_def conv
      os_defs Let_def)

section \<open>Company setup\<close>

text \<open>
  Against C9 as stated: a form with 20 founder shares, 10 shares and a valuation of
  minus 5 is accepted, and the company of the page carries these values.
\<close>

theorem C9_bad_company_accepted:
  "app_company (handleSubmit bad_form app_start)
     = Some \<lparr>name = ''Acme'', foundersShares = Num 20, totalShares = Num 10,
             initialValuation = Num (- 5)\<rparr>
   \<and> js_gt (form_foundersShares bad_form) (form_totalShares bad_form)
   \<and> \<not> js_gt (form_initialValuation bad_form) (Num 0)"
  by (simp add: bad_form_def handlers)

text \<open>
  C9, amended. Company setup validates nothing: whatever the form holds, the company of
  the page becomes the company made of the four fields as they were read, and the page
  moves to the SAFE tab.
\<close>

theorem C9_setup_accepts_everything:
  "handleSubmit formData st
     = st\<lparr>app_company :=
            Some \<lparr>name = form_name formData,
                  foundersShares = form_foundersShares formData,
                  totalShares = form_totalShares formData,
                  initialValuation = form_initialValuation formData\<rparr>,
          app_activeTab := ''safe''\<rparr>"
  by (simp add: handleSubmit_def handleCompanySetup_def submittedCompany_def)

section \<open>Sum of the shares and total\<close>


section \<open>Exit waterfall\<close>

lemma scenario_cap_table_computed:
  "ownershipStructure acme [angel] [seriesA] = Some scenario_cap_table"
  using scenario_exit by (simp add: exit_view_def scenario_state scenario_cap_table_def)


section \<open>SAFE notes under one name\<close>

lemma ot_safe_step:
  "ot_safe pm t (acc, sts) s
   = (if \<not> converted s then (acc, sts)
      else (js_add acc (convertedShares pm t s),
            if \<forall>e \<in> set sts. stakeholder e \<noteq> investorName s
            then sts @ [ot_safe_entry pm t s] else sts))"
proof (cases "find (\<lambda>e. stakeholder e = investorName s) sts")
  case None
  then have "\<forall>e \<in> set sts. stakeholder e \<noteq> investorName s"
    by (simp add: find_None_iff)
  with None show ?thesis by (simp add: ot_safe_def)
next
  case (Some e0)
  then obtain i where i: "i < length sts" "stakeholder (sts ! i) = investorName s"
    unfolding find_Some_iff by blast
  from i(1) have "sts ! i \<in> set sts" by simp
  with i(2) have "\<not> (\<forall>e \<in> set sts. stakeholder e \<noteq> investorName s)"
    by blast
  with Some show ?thesis by (auto simp add: ot_safe_def)
qed

lemma ot_safe_fold_present:
  "\<exists>e \<in> set sts. stakeholder e = n \<Longrightarrow>
   filter (\<lambda>e. stakeholder e = n) (snd (foldl (ot_safe pm t) (acc, sts) safes))
     = filter (\<lambda>e. stakeholder e = n) sts"
proof (induction safes arbitrary: acc sts)
  case Nil
  then show ?case by simp
next
  case (Cons s safes)
  obtain acc' sts' where st: "ot_safe pm t (acc, sts) s = (acc', sts')"
    by (metis surj_pair)
  have alt: "sts' = sts \<or> (sts' = sts @ [ot_safe_entry pm t s]
      \<and> (\<forall>e \<in> set sts. stakeholder e \<noteq> investorName s))"
    using st unfolding ot_safe_step by (cases "converted s") (auto split: if_splits)
  have keep: "filter (\<lambda>e. stakeholder e = n) sts' = filter (\<lambda>e. stakeholder e = n) sts"
  proof -
    { assume new: "sts' = sts @ [ot_safe_entry pm t s]"
        and fresh: "\<forall>e \<in> set sts. stakeholder e \<noteq> investorName s"
      from Cons.prems fresh have "investorName s \<noteq> n" by blast
      with new have ?thesis by (simp add: ot_safe_entry_def) }
    with alt show ?thesis by blast
  qed
  have "\<exists>e \<in> set sts'. stakeholder e = n"
    using alt Cons.prems by auto
  from Cons.IH [OF this, of acc'] keep show ?case
    by (simp add: st)
qed

lemma ot_safe_fold_absent:
  "\<forall>e \<in> set sts. stakeholder e \<noteq> n \<Longrightarrow>
   filter (\<lambda>e. stakeholder e = n) (snd (foldl (ot_safe pm t) (acc, sts) safes))
     = (case find (\<lambda>s. converted s \<and> investorName s = n) safes of
          None \<Rightarrow> []
        | Some s1 \<Rightarrow> [ot_safe_entry pm t s1])"
proof (induction safes arbitrary: acc sts)
  case Nil
  then show ?case by (simp add: filter_empty_conv)
next
  case (Cons s safes)
  have none: "filter (\<lambda>e. stakeholder e = n) sts = []"
    using Cons.prems by (simp add: filter_empty_conv)
  show ?case
  proof (cases "converted s \<and> investorName s = n")
    case True
    then have st: "ot_safe pm t (acc, sts) s
        = (js_add acc (convertedShares pm t s), sts @ [ot_safe_entry pm t s])"
      using Cons.prems by (simp add: ot_safe_step)
    have "\<exists>e \<in> set (sts @ [ot_safe_entry pm t s]). stakeholder e = n"
      using True by (simp add: ot_safe_entry_def)
    from ot_safe_fold_present [OF this, of pm t "js_add acc (convertedShares pm t s)" safes]
    have "filter (\<lambda>e. stakeholder e = n) (snd (foldl (ot_safe pm t) (acc, sts) (s # safes)))
        = filter (\<lambda>e. stakeholder e = n) (sts @ [ot_safe_entry pm t s])"
      by (simp add: st)
    also have "\<dots> = [ot_safe_entry pm t s]"
      using True none by (simp add: ot_safe_entry_def)
    finally show ?thesis using True by simp
  next
    case False
    obtain acc' sts' where st: "ot_safe pm t (acc, sts) s = (acc', sts')"
      by (metis surj_pair)
    have alt: "sts' = sts \<or> (sts' = sts @ [ot_safe_entry pm t s] \<and> converted s)"
      using st unfolding ot_safe_step by (cases "converted s") (auto split: if_splits)
    have "\<forall>e \<in> set sts'. stakeholder e \<noteq> n"
    proof -
      { assume new: "sts' = sts @ [ot_safe_entry pm t s]" and c: "converted s"
        from c False have "investorName s \<noteq> n" by simp
        with new Cons.prems have ?thesis by (simp add: ot_safe_entry_def) }
      with alt Cons.prems show ?thesis by blast
    qed
    from Cons.IH [OF this, of acc'] False show ?thesis
      by (auto simp add: st)
  qed
qed

lemma ot_safe_fold_named:
  "filter (\<lambda>e. stakeholder e = n) (snd (foldl (ot_safe pm t) (acc, sts) safes))
   = (if \<exists>e \<in> set sts. stakeholder e = n then filter (\<lambda>e. stakeholder e = n) sts
      else case find (\<lambda>s. converted s \<and> investorName s = n) safes of
             None \<Rightarrow> []
           | Some s1 \<Rightarrow> [ot_safe_entry pm t s1])"
proof (cases "\<exists>e \<in> set sts. stakeholder e = n")
  case True
  with ot_safe_fold_present [OF True] show ?thesis by simp
next
  case False
  then have "\<forall>e \<in> set sts. stakeholder e \<noteq> n" by blast
  from ot_safe_fold_absent [OF this] False show ?thesis by simp
qed

lemma ot_round_named:
  assumes "list_all (\<lambda>i. inv_name i \<noteq> n) (newInvestors r)"
  shows "filter (\<lambda>e. stakeholder e = n) (ot_stakeholders (ot_round safes st r))
   = (if \<exists>e \<in> set (ot_stakeholders st). stakeholder e = n
      then filter (\<lambda>e. stakeholder e = n) (ot_stakeholders st)
      else case find (\<lambda>s. converted s \<and> investorName s = n) safes of
             None \<Rightarrow> []
           | Some s1 \<Rightarrow> [ot_safe_entry (preMoneyValuation r) (ot_totalShares st) s1])"
proof -
  have "filter (\<lambda>e. stakeholder e = n)
      (map (ot_investor (pricePerShare safes (ot_totalShares st) r)) (newInvestors r)) = []"
    using assms by (auto simp add: filter_empty_conv list_all_iff ot_investor_def)
  then show ?thesis
    by (simp add: ot_round_def Let_def ot_safe_fold_named)
qed

lemma ot_rounds_named_kept:
  "list_all (\<lambda>r. list_all (\<lambda>i. inv_name i \<noteq> n) (newInvestors r)) rounds \<Longrightarrow>
   \<exists>e \<in> set (ot_stakeholders st). stakeholder e = n \<Longrightarrow>
   filter (\<lambda>e. stakeholder e = n) (ot_stakeholders (foldl (ot_round safes) st rounds))
     = filter (\<lambda>e. stakeholder e = n) (ot_stakeholders st)"
proof (induction rounds arbitrary: st)
  case Nil
  then show ?case by simp
next
  case (Cons r rounds)
  from Cons.prems have step:
    "filter (\<lambda>e. stakeholder e = n) (ot_stakeholders (ot_round safes st r))
      = filter (\<lambda>e. stakeholder e = n) (ot_stakeholders st)"
    by (simp add: ot_round_named)
  from Cons.prems(2) have "filter (\<lambda>e. stakeholder e = n) (ot_stakeholders st) \<noteq> []"
    by (simp add: filter_empty_conv)
  then have "filter (\<lambda>e. stakeholder e = n) (ot_stakeholders (ot_round safes st r)) \<noteq> []"
    unfolding step .
  then have "\<exists>e \<in> set (ot_stakeholders (ot_round safes st r)). stakeholder e = n"
    unfolding filter_empty_conv by blast
  with Cons.IH [of "ot_round safes st r"] Cons.prems(1) step show ?case
    by simp
qed

lemma ot_round_total:
  "ot_totalShares (ot_round safes st r)
   = js_add (ot_totalShares st)
       (js_add (reduce_sum (convertedShares (preMoneyValuation r) (ot_totalShares st))
                  (filter converted safes))
          (newShares safes (ot_totalShares st) r))"
  by (simp add: ot_round_def Let_def ot_safe_fold_sum reduce_sum_def)

lemma twins_state:
  "twins = \<lparr>app_company = Some acme,
      app_safeRounds = [twin1\<lparr>safe_id := ''s1'', converted := True\<rparr>,
                        twin2\<lparr>safe_id := ''s2'', converted := True\<rparr>],
      app_pricingRounds = [seriesA], app_activeTab = ''safe''\<rparr>"
  by (simp add: twins_def handlers scen twin1_def twin2_def)

lemma twins_late_state:
  "twins_late = \<lparr>app_company = Some acme,
      app_safeRounds = [angel, twin1\<lparr>safe_id := ''s2''\<rparr>, twin2\<lparr>safe_id := ''s3''\<rparr>],
      app_pricingRounds = [seriesA], app_activeTab = ''safe''\<rparr>"
  by (simp add: twins_late_def scenario_state handlers scen twin1_def twin2_def)

lemma twins_vc_state:
  "twins_vc = \<lparr>app_company = Some acme,
      app_safeRounds = [twin1\<lparr>safe_id := ''s1'', investorName := ''VC'', converted := True\<rparr>,
                        twin2\<lparr>safe_id := ''s2'', investorName := ''VC'', converted := True\<rparr>],
      app_pricingRounds = [seriesA], app_activeTab = ''safe''\<rparr>"
  by (simp add: twins_vc_def handlers scen twin1_def twin2_def)

text \<open>
  Against C10 as stated: with the round of the scenario processed and two notes named
  Twin added after it, the ownership view has no entry under that name; with two notes
  named VC before the round, whose investor is also named VC, it has two entries under
  that name, one for the first note and one for the investor.
\<close>

theorem C10_not_exactly_one_entry:
  "map_option (\<lambda>st. filter (\<lambda>e. stakeholder e = ''Twin'') (ot_stakeholders st))
        (ownership_view twins_late) = Some []
   \<and> map investorName (app_safeRounds twins_late) = [''Angel'', ''Twin'', ''Twin'']
   \<and> map round_name (app_pricingRounds twins_late) = [''Series A'']
   \<and> map_option (\<lambda>st. map ob_type (filter (\<lambda>e. stakeholder e = ''VC'') (ot_stakeholders st)))
        (ownership_view twins_vc) = Some [safe, investor]
   \<and> map investorName (app_safeRounds twins_vc) = [''VC'', ''VC'']"
  by (simp add: twins_late_state twins_vc_state ownership_view_def scen twin1_def twin2_def
      conv ot_defs Let_def)

text \<open>
  C10, amended. In every scenario with at least one processed round, for a name that is
  not ''Founders'', that no investor of any round carries, and under which at least one
  SAFE note is flagged converted (so also when two notes carry it), the ownership
  snapshot has exactly one entry under that name; it is a SAFE entry holding the shares
  into which the first such note converts at the first round and that note's amount.
  At every round the share total grows by the converted shares of every flagged note
  (and the new shares of the round), whether or not the note has an entry.
\<close>

theorem C10_one_entry_per_name:
  assumes "find (\<lambda>s. converted s \<and> investorName s = n) safeRounds = Some s1"
    and "n \<noteq> ''Founders''"
    and "list_all (\<lambda>r. list_all (\<lambda>i. inv_name i \<noteq> n) (newInvestors r)) (r # rounds)"
  shows "map (\<lambda>e. (stakeholder e, shares e, ob_investment e, ob_type e))
           (filter (\<lambda>e. stakeholder e = n)
              (ot_stakeholders (ownershipData c safeRounds (r # rounds))))
         = [(n, convertedShares (preMoneyValuation r) (totalShares c) s1, amount s1, safe)]
    \<and> (\<forall>st r'. ot_totalShares (ot_round safeRounds st r')
          = js_add (ot_totalShares st)
              (js_add (reduce_sum (convertedShares (preMoneyValuation r') (ot_totalShares st))
                         (filter converted safeRounds))
                 (newShares safeRounds (ot_totalShares st) r')))"
proof -
  let ?named = "filter (\<lambda>e. stakeholder e = n)"
  let ?first = "ot_round safeRounds (ot_init c) r"
  have n1: "investorName s1 = n"
    using assms(1) by (auto simp add: find_Some_iff)
  have init: "\<not> (\<exists>e \<in> set (ot_stakeholders (ot_init c)). stakeholder e = n)"
    using assms(2) by (auto simp add: ot_init_def)
  have first: "?named (ot_stakeholders ?first)
      = [ot_safe_entry (preMoneyValuation r) (totalShares c) s1]"
    using assms(3) init by (simp add: ot_round_named assms(1)) (simp add: ot_init_def)
  then have "?named (ot_stakeholders ?first) \<noteq> []"
    by simp
  then have "\<exists>e \<in> set (ot_stakeholders ?first). stakeholder e = n"
    unfolding filter_empty_conv by blast
  then have all: "?named (ot_stakeholders (foldl (ot_round safeRounds) (ot_init c) (r # rounds)))
      = [ot_safe_entry (preMoneyValuation r) (totalShares c) s1]"
    using ot_rounds_named_kept [of n rounds ?first safeRounds] assms(3) first by simp
  have "map (\<lambda>e. (stakeholder e, shares e, ob_investment e, ob_type e))
           (?named (ot_stakeholders (ownershipData c safeRounds (r # rounds))))
      = map (\<lambda>e. (stakeholder e, shares e, ob_investment e, ob_type e))
           (?named (ot_stakeholders (foldl (ot_round safeRounds) (ot_init c) (r # rounds))))"
    by (simp add: ownershipData_def Let_def filter_map comp_def)
  then show ?thesis
    using all n1 by (simp add: ot_safe_entry_def ot_round_total)
qed

theorem C10_one_entry_per_name_witness:
  "find (\<lambda>s. converted s \<and> investorName s = ''Twin'') (app_safeRounds twins)
     = Some (twin1\<lparr>safe_id := ''s1'', converted := True\<rparr>)
   \<and> map investorName (app_safeRounds twins) = [''Twin'', ''Twin'']
   \<and> ''Twin'' \<noteq> ''Founders''
   \<and> list_all (\<lambda>r. list_all (\<lambda>i. inv_name i \<noteq> ''Twin'') (newInvestors r)) [seriesA]
   \<and> map (\<lambda>e. (stakeholder e, shares e, ob_investment e, ob_type e))
        (filter (\<lambda>e. stakeholder e = ''Twin'')
           (ot_stakeholders (ownershipData acme (app_safeRounds twins) [seriesA])))
       = [(''Twin'', Num 500000, Num 250000, safe)]
   \<and> ot_totalShares (ot_round (app_safeRounds twins) (ot_init acme) seriesA)
       = js_add (Num 10000000)
           (js_add (js_add (Num 500000) (Num 125000))
              (newShares (app_safeRounds twins) (Num 10000000) seriesA))"
proof -
  have f: "find (\<lambda>s. converted s \<and> investorName s = ''Twin'') (app_safeRounds twins)
     = Some (twin1\<lparr>safe_id := ''s1'', converted := True\<rparr>)"
    by (simp add: twins_state twin1_def)
  have a: "''Twin'' \<noteq> ''Founders''"
    "list_all (\<lambda>r. list_all (\<lambda>i. inv_name i \<noteq> ''Twin'') (newInvestors r)) [seriesA]"
    by (simp_all add: seriesA_def)
  have c: "convertedShares (preMoneyValuation seriesA) (totalShares acme)
        (twin1\<lparr>safe_id := ''s1'', converted := True\<rparr>) = Num 500000"
    "reduce_sum (convertedShares (preMoneyValuation seriesA) (Num 10000000))
        (filter converted (app_safeRounds twins)) = js_add (Num 500000) (Num 125000)"
    by (simp_all add: twins_state twin1_def twin2_def scen conv)
  show ?thesis
    using C10_one_entry_per_name [OF f a, of acme] f a c
    by (simp add: twins_state twin1_def twin2_def ot_init_def acme_def)
qed

section \<open>Rounding errors\<close>

lemma w_bounds: "0 < 1 - unit_roundoff" "1 - unit_roundoff \<le> 1" "0 \<le> unit_roundoff"
  by (simp_all add: unit_roundoff_def)

lemma wk_bounds: "0 < (1 - unit_roundoff) ^ k" "(1 - unit_roundoff) ^ k \<le> 1"
  using w_bounds by (simp_all add: power_le_one)

lemma near_nonneg: "near k x y \<Longrightarrow> 0 \<le> x"
  unfolding near_def using wk_bounds(1) [of k]
  by (meson mult_nonneg_nonneg less_imp_le order_trans)

lemma near_refl: "0 \<le> x \<Longrightarrow> near 0 x x"
  by (simp add: near_def)

lemma near_sym: "near k x y \<Longrightarrow> near k y x"
  using near_nonneg [of k x y] by (simp add: near_def)

lemma near_mono:
  assumes "near j x y" and "j \<le> k"
  shows "near k x y"
proof -
  have x: "0 \<le> x" using assms(1) by (rule near_nonneg)
  have y: "0 \<le> y" using assms(1) by (simp add: near_def)
  have p: "(1 - unit_roundoff) ^ k \<le> (1 - unit_roundoff) ^ j"
    using assms(2) w_bounds by (simp add: power_decreasing)
  have "y * (1 - unit_roundoff) ^ k \<le> y * (1 - unit_roundoff) ^ j"
    using p y by (rule mult_left_mono)
  moreover have "x * (1 - unit_roundoff) ^ k \<le> x * (1 - unit_roundoff) ^ j"
    using p x by (rule mult_left_mono)
  ultimately show ?thesis using assms(1) unfolding near_def by linarith
qed

lemma near_trans:
  assumes "near j x y" and "near k y z"
  shows "near (j + k) x z"
proof -
  let ?w = "1 - unit_roundoff"
  have "z * ?w ^ (j + k) = (z * ?w ^ k) * ?w ^ j" by (simp add: power_add)
  also have "\<dots> \<le> y * ?w ^ j"
    using assms(2) wk_bounds(1) [of j] unfolding near_def by (simp add: mult_right_mono)
  also have "\<dots> \<le> x" using assms(1) unfolding near_def by simp
  finally have a: "z * ?w ^ (j + k) \<le> x" .
  have "x * ?w ^ (j + k) = (x * ?w ^ j) * ?w ^ k" by (simp add: power_add)
  also have "\<dots> \<le> y * ?w ^ k"
    using assms(1) wk_bounds(1) [of k] unfolding near_def by (simp add: mult_right_mono)
  also have "\<dots> \<le> z" using assms(2) unfolding near_def by simp
  finally have b: "x * ?w ^ (j + k) \<le> z" .
  show ?thesis using a b assms(2) unfolding near_def by simp
qed


lemma near_mult:
  assumes "near j a a'" and "near k b b'"
  shows "near (j + k) (a * b) (a' * b')"
proof -
  let ?w = "1 - unit_roundoff"
  have a: "0 \<le> a" "0 \<le> a'" and b: "0 \<le> b" "0 \<le> b'"
    using assms near_nonneg by (auto simp add: near_def)
  have "(a' * ?w ^ j) * (b' * ?w ^ k) \<le> a * b"
    using assms a b wk_bounds(1) unfolding near_def
    by (intro mult_mono) (auto simp add: less_imp_le)
  moreover have "(a * ?w ^ j) * (b * ?w ^ k) \<le> a' * b'"
    using assms a b wk_bounds(1) unfolding near_def
    by (intro mult_mono) (auto simp add: less_imp_le)
  ultimately show ?thesis using a b unfolding near_def
    by (simp add: power_add algebra_simps)
qed

lemma near_inverse:
  assumes "near k b b'" and "0 < b'"
  shows "near k (1 / b) (1 / b')" and "0 < b"
proof -
  let ?w = "1 - unit_roundoff"
  have "0 < b' * ?w ^ k" using assms(2) wk_bounds(1) by simp
  then show b: "0 < b" using assms(1) unfolding near_def by linarith
  have "?w ^ k / b' \<le> 1 / b"
    using assms b unfolding near_def by (simp add: field_simps)
  moreover have "?w ^ k / b \<le> 1 / b'"
    using assms b unfolding near_def by (simp add: field_simps)
  ultimately show "near k (1 / b) (1 / b')"
    using assms(2) unfolding near_def by simp
qed

lemma near_div:
  assumes "near j a a'" and "near k b b'" and "0 < b'"
  shows "near (j + k) (a / b) (a' / b')"
  using near_mult [OF assms(1) near_inverse(1) [OF assms(2,3)]] by simp

lemma near_min:
  assumes "near j a a'" and "near k b b'"
  shows "near (max j k) (min a b) (min a' b')"
proof -
  have "near (max j k) a a'" "near (max j k) b b'"
    using assms by (auto intro: near_mono)
  then show ?thesis
    using wk_bounds(1) [of "max j k"] unfolding near_def
    by (auto simp add: min_def) (smt (verit) mult_right_mono less_imp_le)+
qed


lemma near_lower:
  assumes "near k x y"
  shows "y * (1 - real k * unit_roundoff) \<le> x"
proof -
  have "1 + real k * (- unit_roundoff) \<le> (1 + (- unit_roundoff)) ^ k"
    by (rule Bernoulli_inequality) (simp add: unit_roundoff_def)
  then have "y * (1 - real k * unit_roundoff) \<le> y * (1 - unit_roundoff) ^ k"
    using assms unfolding near_def by (intro mult_left_mono) simp_all
  then show ?thesis using assms unfolding near_def by linarith
qed


section \<open>Magnitudes\<close>

lemma mag_pos: "mag k x \<Longrightarrow> 0 < x"
proof -
  assume "mag k x"
  then have "1 / 2 ^ k \<le> x" by (simp add: mag_def)
  moreover have "(0::real) < 1 / 2 ^ k" by simp
  ultimately show ?thesis by linarith
qed

lemma mag_mono:
  assumes "mag j x" and "j \<le> k"
  shows "mag k x"
proof -
  have "(2::real) ^ j \<le> 2 ^ k" using assms(2) by (simp add: power_increasing)
  moreover from this have "1 / (2::real) ^ k \<le> 1 / 2 ^ j" by (simp add: frac_le)
  ultimately show ?thesis using assms(1) unfolding mag_def by linarith
qed

lemma mag_mult:
  assumes "mag j x" and "mag k y"
  shows "mag (j + k) (x * y)"
proof -
  have x: "0 < x" and y: "0 < y" using assms mag_pos by blast+
  have "1 / 2 ^ (j + k) = (1 / 2 ^ j) * (1 / (2::real) ^ k)" by (simp add: power_add)
  also have "\<dots> \<le> x * y"
    using assms x y unfolding mag_def by (intro mult_mono) simp_all
  finally have lo: "1 / 2 ^ (j + k) \<le> x * y" .
  have "x * y \<le> 2 ^ j * 2 ^ k"
    using assms x y unfolding mag_def by (intro mult_mono) simp_all
  then show ?thesis using lo by (simp add: mag_def power_add)
qed

lemma mag_inverse:
  assumes "mag k y"
  shows "mag k (1 / y)"
proof -
  have y: "0 < y" using assms by (rule mag_pos)
  from assms have a: "1 \<le> y * 2 ^ k" "y \<le> 2 ^ k"
    by (simp_all add: mag_def field_simps)
  have "1 / y \<le> 2 ^ k" using a(1) y by (simp add: field_simps)
  moreover have "1 / 2 ^ k \<le> 1 / y" using a(2) y by (simp add: field_simps)
  ultimately show ?thesis by (simp add: mag_def)
qed

lemma mag_div:
  assumes "mag j x" and "mag k y"
  shows "mag (j + k) (x / y)"
  using mag_mult [OF assms(1) mag_inverse [OF assms(2)]] by simp


lemma mag_min: "mag k x \<Longrightarrow> mag k y \<Longrightarrow> mag k (min x y)"
  by (simp add: mag_def min_def)

lemma mag_in_range:
  assumes "mag k x" and "k \<le> 1022"
  shows "in_range x"
proof -
  have "mag 1022 x" using assms by (rule mag_mono)
  then have "1 / 2 ^ 1022 \<le> x" "x \<le> 2 ^ 1022" by (simp_all add: mag_def)
  moreover have "(2::real) ^ 1022 \<le> 2 ^ 1023" by (intro power_increasing) simp_all
  moreover have "(0::real) < 1 / 2 ^ 1022" by simp
  ultimately have "1 / 2 ^ 1022 \<le> \<bar>x\<bar> \<and> \<bar>x\<bar> \<le> 2 ^ 1023" by linarith
  then show ?thesis unfolding in_range_def by (rule disjI2)
qed

lemma near_half:
  assumes "near j x y" and "j \<le> 2 ^ 30"
  shows "y / 2 \<le> x" and "x \<le> 2 * y"
proof -
  have ku: "real j * unit_roundoff \<le> 1 / 2"
  proof -
    have "real j \<le> 2 ^ 30"
      using assms(2) by (metis of_nat_le_iff of_nat_numeral of_nat_power)
    then have "real j * unit_roundoff \<le> 2 ^ 30 * unit_roundoff"
      by (intro mult_right_mono) (simp_all add: unit_roundoff_def)
    then show ?thesis by (simp add: unit_roundoff_def)
  qed
  have y: "0 \<le> y" using assms(1) by (simp add: near_def)
  have x: "0 \<le> x" using assms(1) by (rule near_nonneg)
  have "y * (1 / 2) \<le> y * (1 - real j * unit_roundoff)"
    using y ku by (intro mult_left_mono) simp_all
  also have "\<dots> \<le> x" using assms(1) by (rule near_lower)
  finally show "y / 2 \<le> x" by simp
  have "x * (1 / 2) \<le> x * (1 - real j * unit_roundoff)"
    using x ku by (intro mult_left_mono) simp_all
  also have "\<dots> \<le> y" using near_sym [OF assms(1)] by (rule near_lower)
  finally show "x \<le> 2 * y" by simp
qed

lemma near_mag:
  assumes "near j x y" and "j \<le> 2 ^ 30" and "mag k y"
  shows "mag (k + 1) x"
proof -
  note h = near_half [OF assms(1,2)]
  have "1 / 2 ^ (k + 1) = (1 / 2 ^ k) / (2::real)" by simp
  also have "\<dots> \<le> y / 2" using assms(3) unfolding mag_def by (intro divide_right_mono) simp_all
  finally have "1 / 2 ^ (k + 1) \<le> x" using h(1) by linarith
  moreover have "x \<le> 2 ^ (k + 1)" using h(2) assms(3) unfolding mag_def by simp
  ultimately show ?thesis by (simp add: mag_def)
qed

section \<open>Roundings\<close>

lemma rounding_Num:
  assumes "rounding rnd" and "in_range x"
  shows "rnd x = Num (val (rnd x))" and "\<bar>val (rnd x) - x\<bar> \<le> \<bar>x\<bar> * unit_roundoff"
  using assms fin_Num [of "rnd x"] unfolding rounding_def by blast+

lemma rounding_zero: "rounding rnd \<Longrightarrow> rnd 0 = Num 0"
  using rounding_Num [of rnd 0] by (simp add: in_range_def)

lemma rounding_one: "rounding rnd \<Longrightarrow> rnd 1 = Num 1"
  by (simp add: rounding_def)

lemma near_rnd:
  assumes "rounding rnd" and "in_range x" and "0 \<le> x"
  shows "near 1 (val (rnd x)) x"
proof -
  define y where "y = val (rnd x)"
  have e: "\<bar>y - x\<bar> \<le> x * unit_roundoff"
    using rounding_Num(2) [OF assms(1,2)] assms(3) by (simp add: y_def)
  have "y * (1 - unit_roundoff) \<le> (x + x * unit_roundoff) * (1 - unit_roundoff)"
    using e w_bounds by (intro mult_right_mono) linarith+
  also have "\<dots> = x - x * unit_roundoff * unit_roundoff" by (simp add: algebra_simps)
  also have "\<dots> \<le> x" using assms(3) w_bounds(3) by simp
  finally have "near 1 y x" using e assms(3) unfolding near_def by (simp add: algebra_simps)
  then show ?thesis by (simp add: y_def)
qed

lemma rnd_mag:
  assumes "rounding rnd" and "mag k x" and "k \<le> 1022"
  shows "\<exists>y. rnd x = Num y \<and> mag (k + 1) y \<and> near 1 y x"
proof -
  have r: "in_range x" using assms(2,3) by (rule mag_in_range)
  have x: "0 \<le> x" using mag_pos [OF assms(2)] by simp
  have n: "near 1 (val (rnd x)) x" using assms(1) r x by (rule near_rnd)
  have "mag (k + 1) (val (rnd x))" using n _ assms(2) by (rule near_mag) simp
  with rounding_Num(1) [OF assms(1) r] n show ?thesis by blast
qed

section \<open>The rounding of doubles\<close>

lemma rhe_error: "\<bar>of_int (rhe y) - y\<bar> \<le> 1 / 2"
proof -
  have "of_int \<lfloor>y\<rfloor> \<le> y" "y < of_int \<lfloor>y\<rfloor> + 1" by linarith+
  then show ?thesis by (auto simp add: rhe_def Let_def)
qed

lemma rhe_of_int: "rhe (of_int n) = n"
  by (simp add: rhe_def)

lemma fl_error: "\<bar>fl x - x\<bar> \<le> \<bar>x\<bar> * unit_roundoff"
proof (cases "x = 0")
  case True
  then show ?thesis by (simp add: fl_def)
next
  case False
  define e where "e = \<lfloor>log 2 \<bar>x\<bar>\<rfloor>"
  define q :: real where "q = 2 powr (of_int e - 52)"
  have q: "0 < q" by (simp add: q_def)
  have fl: "fl x = of_int (rhe (x / q)) * q"
    using False by (simp add: fl_def Let_def q_def e_def)
  have "fl x - x = (of_int (rhe (x / q)) - x / q) * q"
    using q by (simp add: fl left_diff_distrib)
  then have "\<bar>fl x - x\<bar> = \<bar>of_int (rhe (x / q)) - x / q\<bar> * q"
    using q by (simp add: abs_mult)
  also have "\<dots> \<le> 1 / 2 * q"
    using rhe_error [of "x / q"] q by (intro mult_right_mono) simp_all
  also have "\<dots> = 2 powr (of_int e) * unit_roundoff"
    by (simp add: q_def powr_diff unit_roundoff_def)
  also have "\<dots> \<le> \<bar>x\<bar> * unit_roundoff"
  proof -
    have "of_int e \<le> log 2 \<bar>x\<bar>" by (simp add: e_def)
    then have "2 powr (of_int e) \<le> 2 powr (log 2 \<bar>x\<bar>)" by simp
    also have "\<dots> = \<bar>x\<bar>" using False by simp
    finally show ?thesis by (simp add: unit_roundoff_def)
  qed
  finally show ?thesis .
qed

lemma fl_of_int:
  assumes "\<bar>n\<bar> < 2 ^ 53"
  shows "fl (of_int n) = of_int n"
proof (cases "n = 0")
  case True
  then show ?thesis by (simp add: fl_def)
next
  case False
  define e where "e = \<lfloor>log 2 \<bar>of_int n :: real\<bar>\<rfloor>"
  have "log 2 \<bar>of_int n :: real\<bar> < log 2 (2 ^ 53)"
    using assms False by (subst log_less_cancel_iff) (simp_all flip: of_int_abs)
  moreover have "log 2 ((2::real) ^ 53) = real 53"
    by (rule log_pow_cancel) simp_all
  ultimately have "log 2 \<bar>of_int n :: real\<bar> < 53" by simp
  then have e52: "e \<le> 52" unfolding e_def by linarith
  have "0 \<le> log 2 \<bar>of_int n :: real\<bar>"
    using False by (simp flip: of_int_abs)
  then have e0: "0 \<le> e" unfolding e_def by simp
  define m where "m = nat (52 - e)"
  have q: "(2::real) powr (of_int e - 52) = 1 / 2 ^ m"
  proof -
    have "of_int e - 52 = - real m" using e52 by (simp add: m_def)
    then show ?thesis by (simp add: powr_minus powr_realpow inverse_eq_divide)
  qed
  have "of_int n / (1 / 2 ^ m) = (of_int (n * 2 ^ m) :: real)" by simp
  then have "rhe (of_int n / (1 / 2 ^ m)) = n * 2 ^ m"
    using rhe_of_int by presburger
  then show ?thesis
    using False by (simp add: fl_def Let_def q e_def [symmetric])
qed

lemma fl_one: "fl 1 = 1"
  using fl_of_int [of 1] by simp

lemma fl_eval:
  assumes "2 powr (of_int e) \<le> \<bar>x\<bar>" and "\<bar>x\<bar> < 2 powr (of_int e + 1)"
  shows "fl x = of_int (rhe (x / 2 powr (of_int e - 52))) * 2 powr (of_int e - 52)"
proof -
  have x: "x \<noteq> 0"
  proof
    assume "x = 0"
    with assms(1) have "(2::real) powr (of_int e) \<le> 0" by simp
    then show False by (simp add: not_le [symmetric])
  qed
  have "of_int e \<le> log 2 \<bar>x\<bar>"
    using assms(1) x by (simp add: le_log_iff)
  moreover have "log 2 \<bar>x\<bar> < of_int e + 1"
    using assms(2) x by (simp add: log_less_iff)
  ultimately have "\<lfloor>log 2 \<bar>x\<bar>\<rfloor> = e" by linarith
  then show ?thesis using x by (simp add: fl_def Let_def)
qed

lemma fl_eval_below_one:
  assumes "1 / 2 ^ n \<le> \<bar>x\<bar>" and "\<bar>x\<bar> < 2 / 2 ^ n"
  shows "fl x = of_int (rhe (x * 2 ^ (n + 52))) / 2 ^ (n + 52)"
proof -
  have a: "(2::real) powr (of_int (- int n)) = 1 / 2 ^ n"
    by (simp add: powr_minus powr_realpow inverse_eq_divide)
  have "(2::real) powr (of_int (- int n) + 1) = 2 powr (of_int (- int n)) * 2 powr 1"
    by (rule powr_add)
  then have b: "(2::real) powr (of_int (- int n) + 1) = 2 / 2 ^ n"
    unfolding a by simp
  have "(2::real) powr (of_int (- int n) - 52) = 2 powr (- real (n + 52))"
    by simp
  also have "\<dots> = 1 / 2 ^ (n + 52)"
    unfolding powr_minus by (simp only: powr_realpow zero_less_numeral inverse_eq_divide)
  finally have c: "(2::real) powr (of_int (- int n) - 52) = 1 / 2 ^ (n + 52)" .
  have "fl x = of_int (rhe (x / 2 powr (of_int (- int n) - 52)))
      * 2 powr (of_int (- int n) - 52)"
    using assms unfolding a [symmetric] b [symmetric] by (rule fl_eval)
  then show ?thesis unfolding c by simp
qed

lemma fl_fifth: "fl (20 / 100) = 3602879701896397 / 2 ^ 54"
  using fl_eval_below_one [of 3 "20 / 100"] by (simp add: rhe_def Let_def)

lemma fl_four_fifths: "fl (1 - 3602879701896397 / 2 ^ 54) = 3602879701896397 / 2 ^ 52"
  using fl_eval_below_one [of 1 "1 - 3602879701896397 / 2 ^ 54"] by (simp add: rhe_def Let_def)

lemma fl_discounted: "fl (9000000 * (3602879701896397 / 2 ^ 52)) = 7200000"
proof -
  have a: "(2::real) powr (of_int 22) = 2 ^ 22" "(2::real) powr (of_int 22 + 1) = 2 ^ 23"
    by (simp_all add: powr_realpow [symmetric])
  have "(2::real) powr (of_int 22 - 52) = 2 powr (- real (30 :: nat))" by simp
  also have "\<dots> = 1 / 2 ^ 30"
    unfolding powr_minus by (simp only: powr_realpow zero_less_numeral inverse_eq_divide)
  finally have c: "(2::real) powr (of_int 22 - 52) = 1 / 2 ^ 30" .
  have "fl (9000000 * (3602879701896397 / 2 ^ 52))
      = of_int (rhe (9000000 * (3602879701896397 / 2 ^ 52) / 2 powr (of_int 22 - 52)))
        * 2 powr (of_int 22 - 52)"
    by (rule fl_eval) (simp_all add: a)
  also have "\<dots> = 7200000"
    unfolding c by (simp add: rhe_def Let_def)
  finally show ?thesis .
qed

lemma fl_code_price: "fl (7200000 / 10000000) = 3242591731706757 / 2 ^ 52"
  using fl_eval_below_one [of 1 "7200000 / 10000000"] by (simp add: rhe_def Let_def)

lemma fl_raw_price: "fl (9000000 / 10000000) = 8106479329266893 / 2 ^ 53"
  using fl_eval_below_one [of 1 "9000000 / 10000000"] by (simp add: rhe_def Let_def)

lemma fl_spec_price:
  "fl (8106479329266893 / 2 ^ 53 * (3602879701896397 / 2 ^ 52)) = 6485183463413515 / 2 ^ 53"
  using fl_eval_below_one [of 1 "8106479329266893 / 2 ^ 53 * (3602879701896397 / 2 ^ 52)"]
  by (simp add: rhe_def Let_def)

lemma dbl_normal:
  assumes "1 / 2 ^ 1022 \<le> \<bar>x\<bar>" and "\<bar>x\<bar> \<le> 2 ^ 1023"
  shows "dbl x = Num (fl x)"
proof -
  have "\<bar>fl x\<bar> \<le> \<bar>x\<bar> + \<bar>x\<bar> * unit_roundoff"
    using fl_error [of x] by linarith
  also have "\<dots> = \<bar>x\<bar> * (1 + unit_roundoff)" by (simp add: algebra_simps)
  also have "\<dots> \<le> 2 ^ 1023 * (1 + unit_roundoff)"
    using assms(2) by (intro mult_right_mono) (simp_all add: unit_roundoff_def)
  also have "\<dots> < 2 ^ 1023 * 2" by (intro mult_strict_left_mono) (simp_all add: unit_roundoff_def)
  also have "\<dots> = (2::real) ^ 1024" by simp
  finally have "\<not> 2 ^ 1024 \<le> \<bar>fl x\<bar>" by simp
  moreover have "\<not> \<bar>x\<bar> < 1 / 2 ^ 1022" using assms(1) by simp
  ultimately show ?thesis unfolding dbl_def by (simp only: if_False)
qed

lemma dbl_zero: "dbl 0 = Num 0"
proof -
  have "fl 0 = 0" by (simp add: fl_def)
  moreover have "(0::real) < 1 / 2 ^ 1022" by simp
  moreover have "\<not> (2::real) ^ 1024 \<le> 0" by (simp add: not_le)
  ultimately show ?thesis unfolding dbl_def by (simp add: rhe_def del: power_numeral)
qed

lemma dbl_in_range: "in_range x \<Longrightarrow> dbl x = Num (fl x)"
  unfolding in_range_def using dbl_normal [of x] dbl_zero by (auto simp add: fl_def)

lemma dbl_mag: "mag k x \<Longrightarrow> k \<le> 1022 \<Longrightarrow> dbl x = Num (fl x)"
  using mag_in_range dbl_in_range by blast

lemma rounding_dbl: "rounding dbl"
proof -
  have "1 / 2 ^ 1022 \<le> \<bar>1::real\<bar>" by (simp add: field_simps one_le_power)
  moreover have "\<bar>1::real\<bar> \<le> 2 ^ 1023" by (simp add: one_le_power)
  ultimately have "dbl 1 = Num (fl 1)" by (rule dbl_normal)
  then have one: "dbl 1 = Num 1" by (simp add: fl_one)
  show ?thesis
    unfolding rounding_def using one fl_error by (simp add: dbl_in_range)
qed

lemma rounding_exact: "rounding Num"
  by (simp add: rounding_def unit_roundoff_def)

section \<open>Rounded operations on finite numbers\<close>


lemma r_sub_Num: "r_sub rnd (Num a) (Num b) = rnd (a - b)"
  by (simp add: r_sub_def round_num_def js_sub_def)

lemma r_mul_Num: "r_mul rnd (Num a) (Num b) = rnd (a * b)"
  by (simp add: r_mul_def round_num_def)

lemma r_div_Num: "b \<noteq> 0 \<Longrightarrow> r_div rnd (Num a) (Num b) = rnd (a / b)"
  by (simp add: r_div_def round_num_def)

lemma r_mul_mag:
  assumes "rounding rnd" and "mag j a" and "mag k b" and "j + k \<le> 1022"
  shows "\<exists>y. r_mul rnd (Num a) (Num b) = Num y \<and> mag (j + k + 1) y \<and> near 1 y (a * b)"
  using rnd_mag [OF assms(1) mag_mult [OF assms(2,3)] assms(4)] by (simp add: r_mul_Num)

lemma r_div_mag:
  assumes "rounding rnd" and "mag j a" and "mag k b" and "j + k \<le> 1022"
  shows "\<exists>y. r_div rnd (Num a) (Num b) = Num y \<and> mag (j + k + 1) y \<and> near 1 y (a / b)"
proof -
  have "b \<noteq> 0" using mag_pos [OF assms(3)] by simp
  then show ?thesis
    using rnd_mag [OF assms(1) mag_div [OF assms(2,3)] assms(4)] by (simp add: r_div_Num)
qed


text \<open>With \<open>Num\<close> as rounding, the rounded computations are the exact ones.\<close>

lemma round_num_exact: "round_num Num a = a"
  by (cases a) (simp_all add: round_num_def)

lemma r_ops_exact:
  "r_add Num a b = js_add a b" "r_sub Num a b = js_sub a b"
  "r_mul Num a b = js_mul a b" "r_div Num a b = js_div a b"
  by (simp_all add: r_add_def r_sub_def r_mul_def r_div_def round_num_exact)

lemma conversion_exact:
  "convertedShares_r Num preMoney tot s = convertedShares preMoney tot s"
  "pricePerShare_r Num safeRounds tot r = pricePerShare safeRounds tot r"
  "newShares_r Num safeRounds tot r = newShares safeRounds tot r"
  by (simp_all add: convertedShares_r_def sharePrice_r_def conversionPrice_r_def
      discountPrice_r_def pricePerShare_r_def effectivePreMoney_r_def
      roundSafeInvestment_r_def newShares_r_def reduce_sum_r_def r_ops_exact conv)

lemma os_round_exact: "os_round_r Num safeRounds st r = os_round safeRounds st r"
proof -
  have "os_safe_r Num = os_safe" "os_investor_r Num = os_investor"
    by (simp_all add: fun_eq_iff os_safe_r_def os_safe_def os_investor_r_def os_investor_def
        conversion_exact r_ops_exact)
  then show ?thesis
    by (simp add: os_round_r_def os_round_def Let_def conversion_exact r_ops_exact
        reduce_sum_r_def reduce_sum_def)
qed

lemma ownershipStructure_exact:
  "ownershipStructure_r Num c safeRounds pricingRounds
   = ownershipStructure c safeRounds pricingRounds"
proof -
  have "os_round_r Num safeRounds = os_round safeRounds"
    by (simp add: fun_eq_iff os_round_exact)
  then show ?thesis by (simp add: ownershipStructure_r_def ownershipStructure_def)
qed

lemma ot_round_exact: "ot_round_r Num safeRounds st r = ot_round safeRounds st r"
proof -
  have e: "ot_safe_entry_r Num = ot_safe_entry"
    by (simp add: fun_eq_iff ot_safe_entry_r_def ot_safe_entry_def conversion_exact)
  have "ot_safe_r Num = ot_safe" "ot_investor_r Num = ot_investor"
    by (simp_all add: fun_eq_iff ot_safe_r_def ot_safe_def e
        ot_investor_r_def ot_investor_def conversion_exact r_ops_exact split: option.split)
  then show ?thesis
    by (simp add: ot_round_r_def ot_round_def Let_def conversion_exact r_ops_exact)
qed

lemma ownershipData_exact:
  "ownershipData_r Num c safeRounds pricingRounds = ownershipData c safeRounds pricingRounds"
proof -
  have "ot_round_r Num safeRounds = ot_round safeRounds"
    by (simp add: fun_eq_iff ot_round_exact)
  then show ?thesis by (simp add: ownershipData_r_def ownershipData_def r_ops_exact)
qed

lemma exitCalculation_exact: "exitCalculation_r Num os v = exitCalculation os v"
proof -
  have "investorPayout_r Num = investorPayout"
    by (simp add: fun_eq_iff investorPayout_r_def investorPayout_def r_ops_exact Let_def)
  then show ?thesis
    by (simp add: exitCalculation_r_def exitCalculation_def r_ops_exact reduce_sum_r_def
        reduce_sum_def Let_def split: option.split)
qed

section \<open>Rounded sums\<close>




lemma sized_Num: "sized k x \<Longrightarrow> x = Num (val x) \<and> mag k (val x)"
  using fin_Num by (simp add: sized_def)






section \<open>The conversion of one SAFE in rounded arithmetic\<close>

lemma min_div_pos: "0 < (t::real) \<Longrightarrow> min a b / t = min (a / t) (b / t)"
  by (simp add: min_def divide_le_cancel)

lemma near_upper:
  assumes "near 1 y x" and "x \<le> 99 / 100"
  shows "y \<le> 995 / 1000"
proof -
  have "y * (1 - unit_roundoff) \<le> x" using assms(1) by (simp add: near_def)
  with assms(2) have "y * (1 - unit_roundoff) \<le> 99 / 100" by linarith
  moreover have "0 \<le> y" using assms(1) by (rule near_nonneg)
  ultimately show ?thesis by (simp add: unit_roundoff_def)
qed

lemma discount_factor:
  assumes "rounding rnd" and "discount s = Num 0 \<or> sized b (discount s)"
    and "val (discount s) \<le> 99" and "b + 7 \<le> 1022"
  shows "\<exists>f. r_sub rnd (Num 1) (r_div rnd (discount s) (Num 100)) = Num f \<and> mag 9 f"
proof (cases "discount s = Num 0")
  case True
  have "mag 9 (1::real)" by (simp add: mag_def)
  then show ?thesis
    using assms(1) by (simp add: True r_div_Num r_sub_Num rounding_zero rounding_one)
next
  case False
  with assms(2) have sz: "sized b (discount s)" by simp
  define d where "d = val (discount s)"
  have d: "discount s = Num d" "mag b d" using sized_Num [OF sz] by (simp_all add: d_def)
  have h: "mag 7 (100::real)" by (simp add: mag_def)
  obtain y where y: "r_div rnd (Num d) (Num 100) = Num y" "near 1 y (d / 100)"
    using r_div_mag [OF assms(1) d(2) h assms(4)] by blast
  have "d / 100 \<le> 99 / 100" using assms(3) by (simp add: d_def)
  with y(2) have hi: "y \<le> 995 / 1000" by (rule near_upper)
  have lo: "0 \<le> y" using y(2) by (rule near_nonneg)
  have m: "mag 8 (1 - y)" using hi lo by (simp add: mag_def)
  obtain f where f: "rnd (1 - y) = Num f" "mag (8 + 1) f"
    using rnd_mag [OF assms(1) m] by auto
  then show ?thesis by (simp add: d(1) y(1) r_sub_Num)
qed

lemma conversion_values:
  assumes "rounding rnd" and "valid_safe b s" and "mag b p" and "mag m t"
    and "2 * b + m + 11 \<le> 1022"
  obtains f dp cp sp cs where
    "r_sub rnd (Num 1) (r_div rnd (discount s) (Num 100)) = Num f" and "mag 9 f"
    and "discountPrice_r rnd (Num p) s = Num dp" and "near 1 dp (p * f)"
    and "conversionPrice_r rnd (Num p) s = Num cp" and "mag (b + 10) cp"
    and "cp = (case valuationCap s of None \<Rightarrow> dp | Some c \<Rightarrow> min dp (val c))"
    and "sharePrice_r rnd (Num p) (Num t) s = Num sp" and "near 1 sp (cp / t)"
    and "mag (b + m + 11) sp"
    and "convertedShares_r rnd (Num p) (Num t) s = Num cs"
    and "near 1 cs (val (amount s) / sp)" and "mag (2 * b + m + 12) cs"
proof -
  define a where "a = val (amount s)"
  have a: "amount s = Num a" "mag b a"
    using assms(2) sized_Num [of b "amount s"] by (simp_all add: valid_safe_def a_def)
  have dis: "discount s = Num 0 \<or> sized b (discount s)" "val (discount s) \<le> 99"
    using assms(2) by (simp_all add: valid_safe_def)
  have b7: "b + 7 \<le> 1022" using assms(5) by simp
  obtain f where f: "r_sub rnd (Num 1) (r_div rnd (discount s) (Num 100)) = Num f" "mag 9 f"
    using discount_factor [OF assms(1) dis b7] by blast
  have b9: "b + 9 \<le> 1022" using assms(5) by simp
  obtain dp where dp: "r_mul rnd (Num p) (Num f) = Num dp" "mag (b + 9 + 1) dp"
    "near 1 dp (p * f)"
    using r_mul_mag [OF assms(1,3) f(2) b9] by blast
  have dpm: "mag (b + 10) dp" using dp(2) by (rule mag_mono) simp
  have dpr: "discountPrice_r rnd (Num p) s = Num dp"
    by (simp add: discountPrice_r_def f(1) dp(1))
  define cp where "cp = (case valuationCap s of None \<Rightarrow> dp | Some c \<Rightarrow> min dp (val c))"
  have cp: "conversionPrice_r rnd (Num p) s = Num cp \<and> mag (b + 10) cp"
  proof (cases "valuationCap s")
    case None
    then show ?thesis using dpm by (simp add: conversionPrice_r_def capPrice_def dpr cp_def)
  next
    case (Some c)
    with assms(2) have "sized b c" by (simp add: valid_safe_def)
    define k where "k = val c"
    have k: "c = Num k" "mag b k"
      using sized_Num [OF \<open>sized b c\<close>] by (simp_all add: k_def)
    have k0: "k \<noteq> 0" using mag_pos [OF k(2)] by simp
    have "mag (b + 10) k" using k(2) by (rule mag_mono) simp
    with dpm have "mag (b + 10) (min dp k)" by (rule mag_min)
    then show ?thesis
      using k0 by (simp add: conversionPrice_r_def capPrice_def dpr cp_def Some k(1))
  qed
  then have cp1: "conversionPrice_r rnd (Num p) s = Num cp" and cpm: "mag (b + 10) cp"
    by simp_all
  have bm: "b + 10 + m \<le> 1022" using assms(5) by simp
  obtain sp where sp: "r_div rnd (Num cp) (Num t) = Num sp" "mag (b + 10 + m + 1) sp"
    "near 1 sp (cp / t)"
    using r_div_mag [OF assms(1) cpm assms(4) bm] by blast
  have spm: "mag (b + m + 11) sp" using sp(2) by (rule mag_mono) simp
  have spr: "sharePrice_r rnd (Num p) (Num t) s = Num sp"
    by (simp add: sharePrice_r_def cp1 sp(1))
  have bb: "b + (b + m + 11) \<le> 1022" using assms(5) by simp
  obtain cs where cs: "r_div rnd (Num a) (Num sp) = Num cs" "mag (b + (b + m + 11) + 1) cs"
    "near 1 cs (a / sp)"
    using r_div_mag [OF assms(1) a(2) spm bb] by blast
  have csm: "mag (2 * b + m + 12) cs" using cs(2) by (rule mag_mono) simp
  have csr: "convertedShares_r rnd (Num p) (Num t) s = Num cs"
    by (simp add: convertedShares_r_def spr a(1) cs(1))
  have csn: "near 1 cs (val (amount s) / sp)" using cs(3) by (simp add: a_def)
  show ?thesis
    by (rule that [OF f dpr dp(3) cp1 cpm cp_def spr sp(3) spm csr csn csm])
qed

lemma near_4_small:
  assumes "near 4 x y"
  shows "\<bar>x - y\<bar> \<le> y / 10 ^ 15"
proof -
  have lo: "y * (1 - real 4 * unit_roundoff) \<le> x" using assms by (rule near_lower)
  have hi: "x * (1 - real 4 * unit_roundoff) \<le> y"
    using near_sym [OF assms] by (rule near_lower)
  have "0 \<le> y" "0 \<le> x" using assms near_nonneg by (auto simp add: near_def)
  then show ?thesis
    using lo hi unfolding abs_le_iff by (simp add: unit_roundoff_def)
qed

lemma sharePrice_r_near_spec:
  assumes "rounding rnd" and "valid_safe b s" and "mag b p" and "mag m t"
    and "2 * b + m + 11 \<le> 1022"
  shows "\<exists>x y. sharePrice_r rnd (Num p) (Num t) s = Num x
           \<and> spec_conversionPricePerShare rnd (Num p) (Num t) s = Num y
           \<and> 0 < x \<and> near 4 x y"
proof -
  obtain f dp cp sp cs where v:
    "r_sub rnd (Num 1) (r_div rnd (discount s) (Num 100)) = Num f" "mag 9 f"
    "discountPrice_r rnd (Num p) s = Num dp" "near 1 dp (p * f)"
    "conversionPrice_r rnd (Num p) s = Num cp" "mag (b + 10) cp"
    "cp = (case valuationCap s of None \<Rightarrow> dp | Some c \<Rightarrow> min dp (val c))"
    "sharePrice_r rnd (Num p) (Num t) s = Num sp" "near 1 sp (cp / t)"
    "mag (b + m + 11) sp"
    "convertedShares_r rnd (Num p) (Num t) s = Num cs"
    "near 1 cs (val (amount s) / sp)" "mag (2 * b + m + 12) cs"
    by (rule conversion_values [OF assms])
  have t0: "0 < t" using assms(4) by (rule mag_pos)
  have f0: "0 < f" using v(2) by (rule mag_pos)
  have sp0: "0 < sp" using v(10) by (rule mag_pos)
  have t_near: "near 0 t t" using t0 by (simp add: near_refl)
  have f_near: "near 0 f f" using f0 by (simp add: near_refl)
  have bm: "b + m \<le> 1022" using assms(5) by simp
  obtain pt where pt: "r_div rnd (Num p) (Num t) = Num pt" "mag (b + m + 1) pt"
    "near 1 pt (p / t)"
    using r_div_mag [OF assms(1,3,4) bm] by blast
  have bm9: "b + m + 1 + 9 \<le> 1022" using assms(5) by simp
  obtain y1 where y1: "r_mul rnd (Num pt) (Num f) = Num y1" "near 1 y1 (pt * f)"
    using r_mul_mag [OF assms(1) pt(2) v(2) bm9] by blast
  have "near (1 + 0) (pt * f) (p / t * f)" using pt(3) f_near by (rule near_mult)
  from near_trans [OF y1(2) this] have "near 2 y1 (p / t * f)" by (rule near_mono) simp
  then have y1_near: "near 2 y1 (p * f / t)" by simp
  have spec_dp: "r_mul rnd (r_div rnd (Num p) (Num t))
      (r_sub rnd (Num 1) (r_div rnd (discount s) (Num 100))) = Num y1"
    by (simp only: pt(1) v(1) y1(1))
  have "near (1 + 0) (dp / t) (p * f / t)" using v(4) t_near t0 by (rule near_div)
  then have dpt: "near 1 (dp / t) (p * f / t)" by simp
  show ?thesis
  proof (cases "valuationCap s")
    case None
    have cp: "cp = dp" using v(7) None by simp
    from near_trans [OF v(9) [unfolded cp] dpt] have "near 2 sp (p * f / t)"
      by (rule near_mono) simp
    from near_trans [OF this near_sym [OF y1_near]] have "near 4 sp y1"
      by (rule near_mono) simp
    then show ?thesis
      using v(8) sp0 by (simp add: spec_conversionPricePerShare_def spec_dp None)
  next
    case (Some c)
    with assms(2) have "sized b c" by (simp add: valid_safe_def)
    define k where "k = val c"
    have k: "c = Num k" "mag b k"
      using sized_Num [OF \<open>sized b c\<close>] by (simp_all add: k_def)
    have k0: "0 < k" using k(2) by (rule mag_pos)
    have cp: "cp = min dp k" using v(7) Some k by simp
    obtain ck where ck: "r_div rnd (Num k) (Num t) = Num ck" "near 1 ck (k / t)"
      using r_div_mag [OF assms(1) k(2) assms(4) bm] by blast
    have "near 0 (k / t) (k / t)" using k0 t0 by (intro near_refl) simp
    with dpt have "near (max 1 0) (min (dp / t) (k / t)) (min (p * f / t) (k / t))"
      by (rule near_min)
    then have "near 1 (cp / t) (min (p * f / t) (k / t))"
      by (simp add: cp min_div_pos [OF t0])
    from near_trans [OF v(9) this] have x_near: "near 2 sp (min (p * f / t) (k / t))"
      by (rule near_mono) simp
    have "near (max 2 1) (min y1 ck) (min (p * f / t) (k / t))"
      using y1_near ck(2) by (rule near_min)
    then have y_near: "near 2 (min y1 ck) (min (p * f / t) (k / t))"
      by (rule near_mono) simp
    from near_trans [OF x_near near_sym [OF y_near]] have "near 4 sp (min y1 ck)"
      by (rule near_mono) simp
    then show ?thesis
      using v(8) sp0
      by (simp add: spec_conversionPricePerShare_def spec_dp Some k(1) ck(1))
  qed
qed

section \<open>The conversion price\<close>

lemma dbl_fifth: "r_div dbl (Num 20) (Num 100) = Num (3602879701896397 / 2 ^ 54)"
proof -
  have "mag 7 (20 / 100 :: real)" by (simp add: mag_def)
  then have "dbl (20 / 100) = Num (fl (20 / 100))" by (rule dbl_mag) simp
  then show ?thesis using r_div_Num [of 100 dbl 20] fl_fifth by simp
qed

lemma dbl_four_fifths:
  "r_sub dbl (Num 1) (r_div dbl (Num 20) (Num 100)) = Num (3602879701896397 / 2 ^ 52)"
proof -
  have "mag 7 (1 - 3602879701896397 / 2 ^ 54 :: real)" by (simp add: mag_def)
  then have "dbl (1 - 3602879701896397 / 2 ^ 54) = Num (fl (1 - 3602879701896397 / 2 ^ 54))"
    by (rule dbl_mag) simp
  then show ?thesis
    unfolding dbl_fifth using r_sub_Num [of dbl 1 "3602879701896397 / 2 ^ 54"] fl_four_fifths
    by simp
qed

text \<open>
  Against C7 as stated. In doubles, for the SAFE of the scenario without its cap at a
  pre-money valuation of 9000000 and 10000000 shares, the code converts at
  \<open>9000000 * (1 - 20 / 100) / 10000000\<close>, the double 0.72, and the price of the claim,
  \<open>(9000000 / 10000000) * (1 - 20 / 100)\<close>, is the next double, 0.7200000000000001; the
  entry of the SAFE in the exit view holds its amount divided by the former. And for the
  SAFE of the scenario with a cap of 0, the claim's cap price is 0 divided by the share
  total, so its minimum is 0, while the code reads the cap of 0 as no cap and converts at
  the discount price, 16/25 per share in exact arithmetic and a positive number in doubles.
\<close>

theorem C7_price_not_the_minimum:
  "sharePrice_r dbl (Num 9000000) (Num 10000000) uncapped = Num (3242591731706757 / 2 ^ 52)
   \<and> spec_conversionPricePerShare dbl (Num 9000000) (Num 10000000) uncapped
       = Num (6485183463413515 / 2 ^ 53)
   \<and> sharePrice_r dbl (Num 9000000) (Num 10000000) uncapped
       \<noteq> spec_conversionPricePerShare dbl (Num 9000000) (Num 10000000) uncapped
   \<and> os_stakeholders (os_round_r dbl [uncapped] (os_init acme) seriesA9) ! 1
       = \<lparr>es_name = ''Angel'',
          es_shares = r_div dbl (Num 250000) (Num (3242591731706757 / 2 ^ 52)),
          es_investment = Num 250000, es_type = safe\<rparr>
   \<and> sharePrice_r Num (Num 8000000) (Num 10000000) zero_cap = Num (16 / 25)
   \<and> spec_conversionPricePerShare Num (Num 8000000) (Num 10000000) zero_cap = Num 0
   \<and> (\<exists>x. sharePrice_r dbl (Num 8000000) (Num 10000000) zero_cap = Num x \<and> 0 < x)
   \<and> spec_conversionPricePerShare dbl (Num 8000000) (Num 10000000) zero_cap = Num 0"
proof -
  have u: "discount uncapped = Num 20" "valuationCap uncapped = None"
    "amount uncapped = Num 250000" "investorName uncapped = ''Angel''"
    by (simp_all add: uncapped_def angel_def)
  note factor = dbl_four_fifths
  have "mag 23 (9000000 * (3602879701896397 / 2 ^ 52) :: real)" by (simp add: mag_def)
  then have "dbl (9000000 * (3602879701896397 / 2 ^ 52))
      = Num (fl (9000000 * (3602879701896397 / 2 ^ 52)))"
    by (rule dbl_mag) simp
  then have dprice: "discountPrice_r dbl (Num 9000000) uncapped = Num 7200000"
    unfolding discountPrice_r_def u factor
    using r_mul_Num [of dbl 9000000 "3602879701896397 / 2 ^ 52"] fl_discounted by simp
  have cprice: "conversionPrice_r dbl (Num 9000000) uncapped = Num 7200000"
    unfolding conversionPrice_r_def dprice by (simp add: capPrice_def u)
  have "mag 1 (7200000 / 10000000 :: real)" by (simp add: mag_def)
  then have "dbl (7200000 / 10000000) = Num (fl (7200000 / 10000000))"
    by (rule dbl_mag) simp
  then have code9: "sharePrice_r dbl (Num 9000000) (Num 10000000) uncapped
      = Num (3242591731706757 / 2 ^ 52)"
    unfolding sharePrice_r_def cprice
    using r_div_Num [of 10000000 dbl 7200000] fl_code_price by simp
  have "mag 1 (9000000 / 10000000 :: real)" by (simp add: mag_def)
  then have "dbl (9000000 / 10000000) = Num (fl (9000000 / 10000000))"
    by (rule dbl_mag) simp
  then have raw: "r_div dbl (Num 9000000) (Num 10000000) = Num (8106479329266893 / 2 ^ 53)"
    using r_div_Num [of 10000000 dbl 9000000] fl_raw_price by simp
  have "mag 1 (8106479329266893 / 2 ^ 53 * (3602879701896397 / 2 ^ 52) :: real)"
    by (simp add: mag_def)
  then have "dbl (8106479329266893 / 2 ^ 53 * (3602879701896397 / 2 ^ 52))
      = Num (fl (8106479329266893 / 2 ^ 53 * (3602879701896397 / 2 ^ 52)))"
    by (rule dbl_mag) simp
  then have spec9: "spec_conversionPricePerShare dbl (Num 9000000) (Num 10000000) uncapped
      = Num (6485183463413515 / 2 ^ 53)"
    unfolding spec_conversionPricePerShare_def u factor raw
    using r_mul_Num [of dbl "8106479329266893 / 2 ^ 53" "3602879701896397 / 2 ^ 52"]
      fl_spec_price
    by simp
  have differ: "sharePrice_r dbl (Num 9000000) (Num 10000000) uncapped
       \<noteq> spec_conversionPricePerShare dbl (Num 9000000) (Num 10000000) uncapped"
    unfolding code9 spec9 by simp
  have entry: "os_stakeholders (os_round_r dbl [uncapped] (os_init acme) seriesA9) ! 1
       = \<lparr>es_name = ''Angel'',
          es_shares = r_div dbl (Num 250000) (Num (3242591731706757 / 2 ^ 52)),
          es_investment = Num 250000, es_type = safe\<rparr>"
  proof -
    have "os_stakeholders (os_round_r dbl [uncapped] (os_init acme) seriesA9) ! 1
        = os_safe_r dbl (Num 9000000) (Num 10000000) uncapped"
      by (simp add: os_round_r_def Let_def os_init_def acme_def seriesA9_def seriesA_def)
    also have "\<dots> = \<lparr>es_name = ''Angel'',
          es_shares = r_div dbl (Num 250000) (Num (3242591731706757 / 2 ^ 52)),
          es_investment = Num 250000, es_type = safe\<rparr>"
      unfolding os_safe_r_def convertedShares_r_def code9 u ..
    finally show ?thesis .
  qed
  have exact: "sharePrice_r Num (Num 8000000) (Num 10000000) zero_cap = Num (16 / 25)"
    "spec_conversionPricePerShare Num (Num 8000000) (Num 10000000) zero_cap = Num 0"
    by (simp_all add: sharePrice_r_def conversionPrice_r_def discountPrice_r_def capPrice_def
        spec_conversionPricePerShare_def r_ops_exact js_sub_def zero_cap_def angel_def)
  have d: "discount zero_cap = Num 20" "valuationCap zero_cap = Some (Num 0)"
    by (simp_all add: zero_cap_def angel_def)
  have vu: "valid_safe 24 uncapped"
    by (simp add: valid_safe_def sized_def mag_def uncapped_def angel_def)
  have m: "mag 24 (8000000 :: real)" "mag 24 (10000000 :: real)" by (simp_all add: mag_def)
  have budget: "2 * 24 + 24 + 11 \<le> (1022 :: nat)" by simp
  obtain x y where xy: "sharePrice_r dbl (Num 8000000) (Num 10000000) uncapped = Num x"
    "spec_conversionPricePerShare dbl (Num 8000000) (Num 10000000) uncapped = Num y"
    "0 < x" "near 4 x y"
    using sharePrice_r_near_spec [OF rounding_dbl vu m budget] by blast
  have "sharePrice_r dbl (Num 8000000) (Num 10000000) zero_cap
      = sharePrice_r dbl (Num 8000000) (Num 10000000) uncapped"
    by (simp add: sharePrice_r_def conversionPrice_r_def discountPrice_r_def capPrice_def
        zero_cap_def uncapped_def)
  then have code: "\<exists>x. sharePrice_r dbl (Num 8000000) (Num 10000000) zero_cap = Num x \<and> 0 < x"
    using xy(1,3) by simp
  have y0: "0 \<le> y" using xy(4) by (simp add: near_def)
  define A where "A = r_mul dbl (r_div dbl (Num 8000000) (Num 10000000))
      (r_sub dbl (Num 1) (r_div dbl (Num 20) (Num 100)))"
  have "js_min A PosInf = Num y"
    using xy(2) by (simp add: spec_conversionPricePerShare_def u A_def)
  then have A: "A = Num y" by (cases A) simp_all
  have "spec_conversionPricePerShare dbl (Num 8000000) (Num 10000000) zero_cap
      = js_min A (r_div dbl (Num 0) (Num 10000000))"
    by (simp add: spec_conversionPricePerShare_def d A_def)
  then have spec: "spec_conversionPricePerShare dbl (Num 8000000) (Num 10000000) zero_cap
      = Num 0"
    using y0 by (simp add: A r_div_Num dbl_zero)
  show ?thesis using code9 spec9 differ entry exact code spec by simp
qed

text \<open>
  C7, amended. In double arithmetic, at a round with a pre-money valuation of magnitude
  \<open>b\<close> (between \<open>2 ^ - b\<close> and \<open>2 ^ b\<close>) on a cap table with a share total of magnitude
  \<open>m\<close>, where \<open>2 b + m + 11\<close> is at most 1022, for each SAFE of the list with an amount
  of magnitude \<open>b\<close>, a discount that is 0 or of magnitude \<open>b\<close> and at most 99 percent and
  a cap that is absent or of magnitude \<open>b\<close> (the code reads a cap of 0 as no cap): the
  price per share at which the code converts the SAFE is within \<open>10 ^ - 15\<close> (four
  roundings) of the price of section 4.2, the smaller of the discount price per share and
  the cap price per share (infinite without a cap); the round adds for the SAFE an entry
  that holds its amount divided by that price, a positive number of shares, and the
  ownership view computes the same share count. A SAFE with no discount and no cap
  converts at exactly the pre-money valuation divided by the share total, and a SAFE
  whose cap is below its discounted pre-money valuation converts at exactly the cap
  divided by the share total.
\<close>

theorem C7_conversion_price:
  assumes "rounding rnd" and "valid_safe b s" and "s \<in> set safeRounds"
    and "preMoneyValuation r = Num p" and "mag b p"
    and "os_totalShares st = Num t" and "mag m t"
    and "2 * b + m + 11 \<le> 1022"
  shows "(\<exists>x y. sharePrice_r rnd (Num p) (Num t) s = Num x
             \<and> spec_conversionPricePerShare rnd (Num p) (Num t) s = Num y
             \<and> 0 < x \<and> \<bar>x - y\<bar> \<le> y / 10 ^ 15)
    \<and> \<lparr>es_name = investorName s,
        es_shares = r_div rnd (amount s) (sharePrice_r rnd (Num p) (Num t) s),
        es_investment = amount s, es_type = safe\<rparr>
        \<in> set (os_stakeholders (os_round_r rnd safeRounds st r))
    \<and> shares (ot_safe_entry_r rnd (Num p) (Num t) s)
        = r_div rnd (amount s) (sharePrice_r rnd (Num p) (Num t) s)
    \<and> pos (r_div rnd (amount s) (sharePrice_r rnd (Num p) (Num t) s))
    \<and> (discount s = Num 0 \<and> valuationCap s = None \<and> rnd p = Num p
         \<longrightarrow> sharePrice_r rnd (Num p) (Num t) s = r_div rnd (Num p) (Num t))
    \<and> (\<forall>c. valuationCap s = Some c \<and> js_gt (discountPrice_r rnd (Num p) s) c
         \<longrightarrow> sharePrice_r rnd (Num p) (Num t) s = r_div rnd c (Num t))
    \<and> capPrice (s\<lparr>valuationCap := Some (Num 0)\<rparr>) = capPrice (s\<lparr>valuationCap := None\<rparr>)"
proof -
  obtain f dp cp sp cs where v:
    "r_sub rnd (Num 1) (r_div rnd (discount s) (Num 100)) = Num f" "mag 9 f"
    "discountPrice_r rnd (Num p) s = Num dp" "near 1 dp (p * f)"
    "conversionPrice_r rnd (Num p) s = Num cp" "mag (b + 10) cp"
    "cp = (case valuationCap s of None \<Rightarrow> dp | Some c \<Rightarrow> min dp (val c))"
    "sharePrice_r rnd (Num p) (Num t) s = Num sp" "near 1 sp (cp / t)"
    "mag (b + m + 11) sp"
    "convertedShares_r rnd (Num p) (Num t) s = Num cs"
    "near 1 cs (val (amount s) / sp)" "mag (2 * b + m + 12) cs"
    by (rule conversion_values [OF assms(1,2,5,7,8)])
  have price: "\<exists>x y. sharePrice_r rnd (Num p) (Num t) s = Num x
             \<and> spec_conversionPricePerShare rnd (Num p) (Num t) s = Num y
             \<and> 0 < x \<and> \<bar>x - y\<bar> \<le> y / 10 ^ 15"
    using sharePrice_r_near_spec [OF assms(1,2,5,7,8)] near_4_small by blast
  have conv: "convertedShares_r rnd (Num p) (Num t) s
        = r_div rnd (amount s) (sharePrice_r rnd (Num p) (Num t) s)"
    by (simp add: convertedShares_r_def)
  have "os_safe_r rnd (Num p) (Num t) s
      \<in> set (os_stakeholders (os_round_r rnd safeRounds st r))"
    using assms(3) by (simp add: os_round_r_def Let_def assms(4,6))
  then have entry: "\<lparr>es_name = investorName s,
        es_shares = r_div rnd (amount s) (sharePrice_r rnd (Num p) (Num t) s),
        es_investment = amount s, es_type = safe\<rparr>
        \<in> set (os_stakeholders (os_round_r rnd safeRounds st r))"
    unfolding os_safe_r_def conv .
  have view: "shares (ot_safe_entry_r rnd (Num p) (Num t) s)
        = r_div rnd (amount s) (sharePrice_r rnd (Num p) (Num t) s)"
    by (simp add: ot_safe_entry_r_def conv)
  have positive: "pos (r_div rnd (amount s) (sharePrice_r rnd (Num p) (Num t) s))"
    using mag_pos [OF v(13)] unfolding conv [symmetric] v(11) by (simp add: pos_def)
  have plain: "discount s = Num 0 \<and> valuationCap s = None \<and> rnd p = Num p
         \<longrightarrow> sharePrice_r rnd (Num p) (Num t) s = r_div rnd (Num p) (Num t)"
    using assms(1)
    by (simp add: sharePrice_r_def conversionPrice_r_def discountPrice_r_def
        capPrice_def r_div_Num r_sub_Num r_mul_Num rounding_zero rounding_one)
  have binds: "\<forall>c. valuationCap s = Some c \<and> js_gt (discountPrice_r rnd (Num p) s) c
         \<longrightarrow> sharePrice_r rnd (Num p) (Num t) s = r_div rnd c (Num t)"
  proof (intro allI impI, elim conjE)
    fix c
    assume c: "valuationCap s = Some c" and g: "js_gt (discountPrice_r rnd (Num p) s) c"
    from c assms(2) have "sized b c" by (simp add: valid_safe_def)
    then have k: "c = Num (val c)" "mag b (val c)" using sized_Num by blast+
    have k0: "0 < val c" using k(2) by (rule mag_pos)
    from g have "val c < dp" using k(1) by (metis js_gt.simps(1) v(3))
    then have "js_min (Num dp) c = c"
      using k(1) by (metis js_min.simps(1) min.absorb4)
    moreover have "capPrice s = c"
      using k0 k(1) by (simp add: capPrice_def c) (metis truthy.simps(1) less_irrefl)
    ultimately show "sharePrice_r rnd (Num p) (Num t) s = r_div rnd c (Num t)"
      by (simp add: sharePrice_r_def conversionPrice_r_def v(3))
  qed
  have zero: "capPrice (s\<lparr>valuationCap := Some (Num 0)\<rparr>) = capPrice (s\<lparr>valuationCap := None\<rparr>)"
    by (simp add: capPrice_def)
  show ?thesis using price entry view positive plain binds zero by blast
qed

theorem C7_conversion_price_witness:
  "rounding dbl \<and> valid_safe 24 angel \<and> valid_safe 24 plain
   \<and> angel \<in> set [angel] \<and> plain \<in> set [plain]
   \<and> preMoneyValuation seriesA = Num 8000000 \<and> mag 24 8000000
   \<and> os_totalShares (os_init acme) = Num 10000000 \<and> mag 24 10000000
   \<and> 2 * 24 + 24 + 11 \<le> (1022 :: nat)
   \<and> discount plain = Num 0 \<and> valuationCap plain = None \<and> dbl 8000000 = Num 8000000
   \<and> valuationCap angel = Some (Num 5000000)
   \<and> js_gt (discountPrice_r dbl (Num 8000000) angel) (Num 5000000)
   \<and> (\<exists>x y. sharePrice_r dbl (Num 8000000) (Num 10000000) angel = Num x
          \<and> spec_conversionPricePerShare dbl (Num 8000000) (Num 10000000) angel = Num y
          \<and> 0 < x \<and> \<bar>x - y\<bar> \<le> y / 10 ^ 15)
   \<and> sharePrice_r dbl (Num 8000000) (Num 10000000) angel
       = r_div dbl (Num 5000000) (Num 10000000)
   \<and> sharePrice_r dbl (Num 8000000) (Num 10000000) plain
       = r_div dbl (Num 8000000) (Num 10000000)
   \<and> \<lparr>es_name = ''Angel'',
       es_shares = r_div dbl (Num 250000) (r_div dbl (Num 5000000) (Num 10000000)),
       es_investment = Num 250000, es_type = safe\<rparr>
       \<in> set (os_stakeholders (os_round_r dbl [angel] (os_init acme) seriesA))"
proof -
  have va: "valid_safe 24 angel" and vp: "valid_safe 24 plain"
    by (simp_all add: valid_safe_def sized_def mag_def angel_def plain_def)
  have ma: "angel \<in> set [angel]" and mp: "plain \<in> set [plain]" by simp_all
  have r: "preMoneyValuation seriesA = Num 8000000" by (simp add: seriesA_def)
  have st: "os_totalShares (os_init acme) = Num 10000000" by (simp add: os_init_def acme_def)
  have n: "mag 24 (8000000 :: real)" "mag 24 (10000000 :: real)" by (simp_all add: mag_def)
  have budget: "2 * 24 + 24 + 11 \<le> (1022 :: nat)" by simp
  have pl: "discount plain = Num 0" "valuationCap plain = None"
    by (simp_all add: plain_def)
  have "dbl 8000000 = Num (fl 8000000)" using n(1) by (rule dbl_mag) simp
  then have f8: "dbl 8000000 = Num 8000000"
    using fl_of_int [of 8000000] by simp
  have an: "valuationCap angel = Some (Num 5000000)" "amount angel = Num 250000"
    "investorName angel = ''Angel''" "discount angel = Num 20"
    by (simp_all add: angel_def)
  have g: "js_gt (discountPrice_r dbl (Num 8000000) angel) (Num 5000000)"
  proof -
    define x :: real where "x = 8000000 * (3602879701896397 / 2 ^ 52)"
    have xb: "6000000 \<le> x" "x \<le> 7000000" by (simp_all add: x_def)
    have "mag 23 x" using xb by (simp add: mag_def)
    then have "dbl x = Num (fl x)" by (rule dbl_mag) simp
    then have dp: "discountPrice_r dbl (Num 8000000) angel = Num (fl x)"
      unfolding discountPrice_r_def an dbl_four_fifths
      using r_mul_Num [of dbl 8000000 "3602879701896397 / 2 ^ 52"] by (simp add: x_def)
    have "\<bar>fl x - x\<bar> \<le> \<bar>x\<bar> * unit_roundoff" by (rule fl_error)
    moreover have "\<bar>x\<bar> * unit_roundoff \<le> 7000000 * unit_roundoff"
      using xb by (intro mult_right_mono) (simp_all add: unit_roundoff_def)
    moreover have "7000000 * unit_roundoff \<le> 1" by (simp add: unit_roundoff_def)
    ultimately have "5000000 < fl x" using xb(1) by linarith
    then show ?thesis unfolding dp by simp
  qed
  note A = C7_conversion_price [OF rounding_dbl va ma r n(1) st n(2) budget]
  note P = C7_conversion_price [OF rounding_dbl vp mp r n(1) st n(2) budget]
  have near: "\<exists>x y. sharePrice_r dbl (Num 8000000) (Num 10000000) angel = Num x
          \<and> spec_conversionPricePerShare dbl (Num 8000000) (Num 10000000) angel = Num y
          \<and> 0 < x \<and> \<bar>x - y\<bar> \<le> y / 10 ^ 15"
    using A by (rule conjunct1)
  have capped: "sharePrice_r dbl (Num 8000000) (Num 10000000) angel
       = r_div dbl (Num 5000000) (Num 10000000)"
    using A an(1) g by blast
  have uncapped: "sharePrice_r dbl (Num 8000000) (Num 10000000) plain
       = r_div dbl (Num 8000000) (Num 10000000)"
    using P pl f8 by blast
  from A have "\<lparr>es_name = investorName angel,
        es_shares = r_div dbl (amount angel) (sharePrice_r dbl (Num 8000000) (Num 10000000) angel),
        es_investment = amount angel, es_type = safe\<rparr>
        \<in> set (os_stakeholders (os_round_r dbl [angel] (os_init acme) seriesA))"
    by blast
  then have entry: "\<lparr>es_name = ''Angel'',
       es_shares = r_div dbl (Num 250000) (r_div dbl (Num 5000000) (Num 10000000)),
       es_investment = Num 250000, es_type = safe\<rparr>
       \<in> set (os_stakeholders (os_round_r dbl [angel] (os_init acme) seriesA))"
    unfolding an capped .
  show ?thesis
    using rounding_dbl va vp ma mp r st n budget pl f8 an(1) g near capped uncapped entry
    by blast
qed

section \<open>A round in rounded arithmetic\<close>








section \<open>The exit view in rounded arithmetic\<close>







section \<open>The ownership view in rounded arithmetic\<close>









section \<open>The exit waterfall in rounded arithmetic\<close>








end
